theory Spec2Isabelle
  imports Complex_Main
begin

section \<open>Python values, exceptions and dictionaries\<close>

text \<open>
  The three services of the repository (\<^verbatim>\<open>fraud_detection_service.py\<close>,
  \<^verbatim>\<open>document_validator.py\<close>, \<^verbatim>\<open>image_analysis_service.py\<close>) pass their
  results around as string-keyed Python dictionaries. The dictionaries are modelled as
  association lists in insertion order over a universe of dynamic values, so that a
  missing key, an \<^verbatim>\<open>update\<close> and a key test mean what they mean in Python.
  Python floats are modelled as exact reals and strings as lists of 8-bit characters
  (ASCII text).
\<close>

datatype pyval =
    PNone
  | PBool bool
  | PInt int
  | PFloat real
  | PStr string
  | PList "pyval list"
  | PDict "(string \<times> pyval) list"

type_synonym pydict = "(string \<times> pyval) list"

datatype error =
    TypeError string
  | AttributeError string
  | KeyError string
  | ValueError string
  | ZeroDivisionError string
  | LibraryError string

definition quote :: "string \<Rightarrow> string" where
  "quote s = [CHR 0x27] @ s @ [CHR 0x27]"

text \<open>\<^verbatim>\<open>str(e)\<close>: the message of the exception; a \<^verbatim>\<open>KeyError\<close> prints its key quoted.\<close>

fun error_str :: "error \<Rightarrow> string" where
  "error_str (TypeError m) = m"
| "error_str (AttributeError m) = m"
| "error_str (KeyError k) = quote k"
| "error_str (ValueError m) = m"
| "error_str (ZeroDivisionError m) = m"
| "error_str (LibraryError m) = m"

text \<open>Sequencing of statements that may raise: the first exception wins.\<close>

definition and_then :: "error + 'a \<Rightarrow> ('a \<Rightarrow> error + 'b) \<Rightarrow> error + 'b" where
  "and_then m f = (case m of Inl e \<Rightarrow> Inl e | Inr x \<Rightarrow> f x)"

text \<open>\<^verbatim>\<open>d[k] = v\<close>: an existing key keeps its position, a new key goes last.\<close>

fun dict_set :: "pydict \<Rightarrow> string \<Rightarrow> pyval \<Rightarrow> pydict" where
  "dict_set [] k v = [(k, v)]"
| "dict_set ((k', v') # d) k v =
     (if k' = k then (k', v) # d else (k', v') # dict_set d k v)"

text \<open>\<^verbatim>\<open>d.update(e)\<close> and \<^verbatim>\<open>{**d, **e}\<close>.\<close>

fun dict_update :: "pydict \<Rightarrow> pydict \<Rightarrow> pydict" where
  "dict_update d [] = d"
| "dict_update d ((k, v) # e) = dict_update (dict_set d k v) e"

text \<open>\<^verbatim>\<open>d[k]\<close> raises \<^verbatim>\<open>KeyError\<close> on a missing key; \<^verbatim>\<open>d.get(k, default)\<close> does not.\<close>

definition dict_index :: "pydict \<Rightarrow> string \<Rightarrow> error + pyval" where
  "dict_index d k = (case map_of d k of None \<Rightarrow> Inl (KeyError k) | Some v \<Rightarrow> Inr v)"

definition dict_get :: "pydict \<Rightarrow> string \<Rightarrow> pyval \<Rightarrow> pyval" where
  "dict_get d k dflt = (case map_of d k of None \<Rightarrow> dflt | Some v \<Rightarrow> v)"

definition dict_has :: "pydict \<Rightarrow> string \<Rightarrow> bool" where
  "dict_has d k = (case map_of d k of None \<Rightarrow> False | Some v \<Rightarrow> True)"

text \<open>A field of the dictionary that a call returned (nothing if the call raised).\<close>

definition result_field :: "error + pydict \<Rightarrow> string \<Rightarrow> pyval option" where
  "result_field res k = (case res of Inl e \<Rightarrow> None | Inr d \<Rightarrow> map_of d k)"

text \<open>Python truthiness, as used by \<^verbatim>\<open>if x:\<close> and \<^verbatim>\<open>not x\<close>.\<close>

fun truthy :: "pyval \<Rightarrow> bool" where
  "truthy PNone = False"
| "truthy (PBool b) = b"
| "truthy (PInt i) = (i \<noteq> 0)"
| "truthy (PFloat r) = (r \<noteq> 0)"
| "truthy (PStr s) = (s \<noteq> [])"
| "truthy (PList xs) = (xs \<noteq> [])"
| "truthy (PDict d) = (d \<noteq> [])"

fun type_name :: "pyval \<Rightarrow> string" where
  "type_name PNone = ''NoneType''"
| "type_name (PBool b) = ''bool''"
| "type_name (PInt i) = ''int''"
| "type_name (PFloat r) = ''float''"
| "type_name (PStr s) = ''str''"
| "type_name (PList xs) = ''list''"
| "type_name (PDict d) = ''dict''"

text \<open>Iterating over a value (\<^verbatim>\<open>list.extend(v)\<close>); only lists occur in the services.\<close>

fun items_of :: "pyval \<Rightarrow> error + pyval list" where
  "items_of (PList xs) = Inr xs"
| "items_of v = Inl (TypeError (quote (type_name v) @ '' object is not iterable''))"

text \<open>A number read from a dictionary for arithmetic.\<close>

fun num_of :: "pyval \<Rightarrow> error + real" where
  "num_of (PInt i) = Inr (real_of_int i)"
| "num_of (PFloat r) = Inr r"
| "num_of (PBool b) = Inr (if b then 1 else 0)"
| "num_of v = Inl (TypeError (''unsupported operand type(s): '' @ quote (type_name v)))"

section \<open>Strings\<close>

definition upper_chars :: string where
  "upper_chars = ''ABCDEFGHIJKLMNOPQRSTUVWXYZ''"

definition lower_chars :: string where
  "lower_chars = ''abcdefghijklmnopqrstuvwxyz''"

definition digit_chars :: string where
  "digit_chars = ''0123456789''"

text \<open>\<^verbatim>\<open>str.isspace\<close> on ASCII: space, tab, newline, vertical tab, form feed, carriage
  return and the four separators 0x1C to 0x1F.\<close>

definition space_chars :: string where
  "space_chars = [CHR 0x20, CHR 0x09, CHR 0x0A, CHR 0x0B, CHR 0x0C, CHR 0x0D,
                  CHR 0x1C, CHR 0x1D, CHR 0x1E, CHR 0x1F]"

definition is_digit :: "char \<Rightarrow> bool" where
  "is_digit c = (c \<in> set digit_chars)"

definition is_space :: "char \<Rightarrow> bool" where
  "is_space c = (c \<in> set space_chars)"

definition is_upper :: "char \<Rightarrow> bool" where
  "is_upper c = (c \<in> set upper_chars)"

definition is_alnum :: "char \<Rightarrow> bool" where
  "is_alnum c = (c \<in> set (upper_chars @ lower_chars @ digit_chars))"

definition lower_char :: "char \<Rightarrow> char" where
  "lower_char c = (case map_of (zip upper_chars lower_chars) c of None \<Rightarrow> c | Some l \<Rightarrow> l)"

definition lower :: "string \<Rightarrow> string" where
  "lower s = map lower_char s"

text \<open>\<^verbatim>\<open>s.startswith(p)\<close>, \<^verbatim>\<open>p in s\<close> and \<^verbatim>\<open>s.endswith(p)\<close>.\<close>

fun starts_with :: "string \<Rightarrow> string \<Rightarrow> bool" where
  "starts_with s [] = True"
| "starts_with [] (p # ps) = False"
| "starts_with (c # s) (p # ps) = (c = p \<and> starts_with s ps)"

fun str_in :: "string \<Rightarrow> string \<Rightarrow> bool" where
  "str_in p [] = (p = [])"
| "str_in p (c # s) = (starts_with (c # s) p \<or> str_in p s)"

definition ends_with :: "string \<Rightarrow> string \<Rightarrow> bool" where
  "ends_with s p = starts_with (rev s) (rev p)"

text \<open>\<^verbatim>\<open>s.split()\<close>: the maximal runs of non-whitespace characters.\<close>

fun split_ws_from :: "string \<Rightarrow> string \<Rightarrow> string list" where
  "split_ws_from w [] = (if w = [] then [] else [w])"
| "split_ws_from w (c # s) =
     (if is_space c then (if w = [] then split_ws_from [] s else w # split_ws_from [] s)
      else split_ws_from (w @ [c]) s)"

definition split_ws :: "string \<Rightarrow> string list" where
  "split_ws s = split_ws_from [] s"

text \<open>\<^verbatim>\<open>s.split(sep)\<close> for a one-character separator: empty pieces are kept.\<close>

fun split_on_from :: "char \<Rightarrow> string \<Rightarrow> string \<Rightarrow> string list" where
  "split_on_from sep w [] = [w]"
| "split_on_from sep w (c # s) =
     (if c = sep then w # split_on_from sep [] s else split_on_from sep (w @ [c]) s)"

definition split_on :: "char \<Rightarrow> string \<Rightarrow> string list" where
  "split_on sep s = split_on_from sep [] s"

definition lstrip :: "string \<Rightarrow> string" where
  "lstrip s = dropWhile is_space s"

definition strip :: "string \<Rightarrow> string" where
  "strip s = rev (dropWhile is_space (rev (dropWhile is_space s)))"

text \<open>\<^verbatim>\<open>sep.join(xs)\<close>, \<^verbatim>\<open>str(n)\<close> for a natural number, and \<^verbatim>\<open>repr\<close> of a list of
  strings that contain no quote or backslash (the only lists the services print).\<close>

fun join :: "string \<Rightarrow> string list \<Rightarrow> string" where
  "join sep [] = []"
| "join sep [x] = x"
| "join sep (x # y # ys) = x @ sep @ join sep (y # ys)"

definition digit_char :: "nat \<Rightarrow> char" where
  "digit_char d = digit_chars ! d"

function str_nat :: "nat \<Rightarrow> string" where
  "str_nat n = (if n < 10 then [digit_char n] else str_nat (n div 10) @ [digit_char (n mod 10)])"
  by pat_completeness auto
termination
  by (relation "measure (\<lambda>n. n)") auto

declare str_nat.simps [simp del]

definition repr_list :: "string list \<Rightarrow> string" where
  "repr_list xs = ''['' @ join '', '' (map quote xs) @ '']''"

text \<open>\<^verbatim>\<open>int(s)\<close> on a string of decimal digits (the services only convert what
  \<^verbatim>\<open>\d\<close> has matched).\<close>

definition digit_val :: "char \<Rightarrow> nat" where
  "digit_val c = length (takeWhile (\<lambda>d. d \<noteq> c) digit_chars)"

definition int_of_digits :: "string \<Rightarrow> nat" where
  "int_of_digits s = foldl (\<lambda>n c. 10 * n + digit_val c) 0 s"

definition py_int :: "string \<Rightarrow> error + nat" where
  "py_int s =
     (if s \<noteq> [] \<and> list_all is_digit s then Inr (int_of_digits s)
      else Inl (ValueError (''invalid literal for int() with base 10: '' @ quote s)))"

text \<open>
  \<^verbatim>\<open>float(s)\<close> on a string of digits and dots, as left by
  \<^verbatim>\<open>re.sub(r'[^\d.]', '', match)\<close>: digits with at most one dot and at least one digit
  convert, anything else raises \<^verbatim>\<open>ValueError\<close>.
\<close>

definition float_of :: "string \<Rightarrow> error + real" where
  "float_of s =
     (case split_on (CHR ''.'') s of
        [i] \<Rightarrow> if i = [] then Inl (ValueError (''could not convert string to float: '' @ quote s))
               else Inr (real (int_of_digits i))
      | [i, f] \<Rightarrow> if i = [] \<and> f = []
                  then Inl (ValueError (''could not convert string to float: '' @ quote s))
                  else Inr (real (int_of_digits i) + real (int_of_digits f) / 10 ^ length f)
      | _ \<Rightarrow> Inl (ValueError (''could not convert string to float: '' @ quote s)))"

text \<open>\<^verbatim>\<open>max(xs)\<close> and \<^verbatim>\<open>min(xs)\<close> of a non-empty list.\<close>

definition list_max :: "real list \<Rightarrow> real" where
  "list_max xs = fold max (tl xs) (hd xs)"

definition list_min :: "real list \<Rightarrow> real" where
  "list_min xs = fold min (tl xs) (hd xs)"

text \<open>\<^verbatim>\<open>x % y\<close> on floats, for positive \<^verbatim>\<open>y\<close>.\<close>

definition py_mod :: "real \<Rightarrow> real \<Rightarrow> real" where
  "py_mod x y = x - y * of_int \<lfloor>x / y\<rfloor>"

text \<open>
  The first string operations of the services on their \<^verbatim>\<open>text\<close> argument are
  \<^verbatim>\<open>len(text)\<close> and then a string method (\<^verbatim>\<open>text.lower()\<close>, \<^verbatim>\<open>text.split()\<close>).
  A value that is not a string fails one of them: it has no length, or it has a length
  but no such method.
\<close>

fun text_arg :: "string \<Rightarrow> pyval \<Rightarrow> error + string" where
  "text_arg method (PStr s) = Inr s"
| "text_arg method (PList xs) =
     Inl (AttributeError (quote ''list'' @ '' object has no attribute '' @ quote method))"
| "text_arg method (PDict d) =
     Inl (AttributeError (quote ''dict'' @ '' object has no attribute '' @ quote method))"
| "text_arg method v =
     Inl (TypeError (''object of type '' @ quote (type_name v) @ '' has no len()''))"

section \<open>Regular expressions\<close>

text \<open>
  The services use Python's \<^verbatim>\<open>re\<close> module (\<^verbatim>\<open>re.findall\<close>, \<^verbatim>\<open>re.search\<close>). The
  patterns are written as values of the datatype \<open>rx\<close>, and matched by backtracking
  in Python's order: a quantifier is greedy, an alternation tries its left branch first,
  and the first match found at the leftmost position wins. \<open>rx_match\<close> returns every
  way of matching at the current position, best first; the state is the character
  before the position (for \<^verbatim>\<open>\b\<close>), the remaining text, and the groups captured so far.
\<close>

datatype rx =
    Lit char
  | OneOf string
  | NoneOf string
  | Eps
  | WordB
  | Seq rx rx
  | Alt rx rx
  | Star rx
  | Group nat rx
  | Backref nat

type_synonym mstate = "char option \<times> string \<times> (nat \<times> string) list"

definition word_chars :: string where
  "word_chars = upper_chars @ lower_chars @ digit_chars @ ''_''"

definition swap_case :: "char \<Rightarrow> char" where
  "swap_case c =
     (case map_of (zip (upper_chars @ lower_chars) (lower_chars @ upper_chars)) c of
        None \<Rightarrow> c | Some d \<Rightarrow> d)"

text \<open>Membership in a character class; with \<^verbatim>\<open>re.IGNORECASE\<close> the other case of the
  character counts too.\<close>

definition char_in :: "bool \<Rightarrow> string \<Rightarrow> char \<Rightarrow> bool" where
  "char_in ic cs c = (c \<in> set cs \<or> (ic \<and> swap_case c \<in> set cs))"

definition is_word_at :: "char option \<Rightarrow> bool" where
  "is_word_at p = (case p of None \<Rightarrow> False | Some c \<Rightarrow> c \<in> set word_chars)"

fun rx_match :: "bool \<Rightarrow> rx \<Rightarrow> mstate \<Rightarrow> mstate list" where
  "rx_match ic (Lit a) (p, s, g) =
     (case s of [] \<Rightarrow> [] | c # t \<Rightarrow> if char_in ic [a] c then [(Some c, t, g)] else [])"
| "rx_match ic (OneOf cs) (p, s, g) =
     (case s of [] \<Rightarrow> [] | c # t \<Rightarrow> if char_in ic cs c then [(Some c, t, g)] else [])"
| "rx_match ic (NoneOf cs) (p, s, g) =
     (case s of [] \<Rightarrow> [] | c # t \<Rightarrow> if char_in ic cs c then [] else [(Some c, t, g)])"
| "rx_match ic Eps st = [st]"
| "rx_match ic WordB (p, s, g) =
     (if is_word_at p \<noteq> is_word_at (case s of [] \<Rightarrow> None | c # t \<Rightarrow> Some c)
      then [(p, s, g)] else [])"
| "rx_match ic (Seq a b) st = concat (map (rx_match ic b) (rx_match ic a st))"
| "rx_match ic (Alt a b) st = rx_match ic a st @ rx_match ic b st"
| "rx_match ic (Star a) (p, s, g) =
     concat (map (\<lambda>(p', s', g'). if length s' < length s
                                   then rx_match ic (Star a) (p', s', g') else [])
               (rx_match ic a (p, s, g))) @ [(p, s, g)]"
| "rx_match ic (Group n a) (p, s, g) =
     map (\<lambda>(p', s', g'). (p', s', (n, take (length s - length s') s) # g'))
       (rx_match ic a (p, s, g))"
| "rx_match ic (Backref n) (p, s, g) =
     (case map_of g n of
        None \<Rightarrow> []
      | Some w \<Rightarrow> if starts_with s w
                  then [(if w = [] then p else Some (last w), drop (length w) s, g)]
                  else [])"

text \<open>
  \<^verbatim>\<open>re.search\<close>: the first match at the leftmost position where there is one; the
  result is the matched text (\<^verbatim>\<open>match.group()\<close>) and the groups.
\<close>

fun rx_search_from ::
    "bool \<Rightarrow> rx \<Rightarrow> char option \<Rightarrow> string \<Rightarrow> (string \<times> (nat \<times> string) list) option" where
  "rx_search_from ic r p [] =
     (case rx_match ic r (p, [], []) of
        [] \<Rightarrow> None
      | (p', s', g) # ms \<Rightarrow> Some ([], g))"
| "rx_search_from ic r p (c # t) =
     (case rx_match ic r (p, c # t, []) of
        [] \<Rightarrow> rx_search_from ic r (Some c) t
      | (p', s', g) # ms \<Rightarrow> Some (take (length (c # t) - length s') (c # t), g))"

definition rx_search :: "bool \<Rightarrow> rx \<Rightarrow> string \<Rightarrow> (string \<times> (nat \<times> string) list) option" where
  "rx_search ic r s = rx_search_from ic r None s"

definition rx_found :: "bool \<Rightarrow> rx \<Rightarrow> string \<Rightarrow> bool" where
  "rx_found ic r s = (rx_search ic r s \<noteq> None)"

text \<open>
  \<^verbatim>\<open>re.findall\<close>: the texts of the successive non-overlapping matches, left to right.
  (For a pattern with one group Python returns the group instead of the whole match; the
  two such patterns of the services are \<^verbatim>\<open>(\$\d+\.?\d*)\<close>, whose group is the whole
  match, and \<^verbatim>\<open>(.)\1{5,}\<close>, of which only emptiness of the result is used.)
\<close>

function rx_findall_from :: "bool \<Rightarrow> rx \<Rightarrow> char option \<Rightarrow> string \<Rightarrow> string list" where
  "rx_findall_from ic r p s =
     (case rx_match ic r (p, s, []) of
        [] \<Rightarrow> (case s of [] \<Rightarrow> [] | c # t \<Rightarrow> rx_findall_from ic r (Some c) t)
      | (p', s', g) # ms \<Rightarrow>
          take (length s - length s') s #
          (if length s' < length s then rx_findall_from ic r p' s'
           else (case s of [] \<Rightarrow> [] | c # t \<Rightarrow> rx_findall_from ic r (Some c) t)))"
  by pat_completeness auto
termination
  by (relation "measure (\<lambda>(ic, r, p, s). length s)") auto

declare rx_findall_from.simps [simp del]

definition rx_findall :: "bool \<Rightarrow> rx \<Rightarrow> string \<Rightarrow> string list" where
  "rx_findall ic r s = rx_findall_from ic r None s"

text \<open>Pattern notation: sequences, literal words, \<^verbatim>\<open>?\<close>, \<^verbatim>\<open>+\<close>, \<^verbatim>\<open>{n}\<close>, \<^verbatim>\<open>{m,n}\<close>,
  \<^verbatim>\<open>{m,}\<close>, alternatives of words, and the classes \<^verbatim>\<open>\d\<close>, \<^verbatim>\<open>\s\<close>, \<^verbatim>\<open>\w\<close>, \<^verbatim>\<open>.\<close>.\<close>

definition seqs :: "rx list \<Rightarrow> rx" where
  "seqs rs = foldr Seq rs Eps"

definition word :: "string \<Rightarrow> rx" where
  "word s = seqs (map Lit s)"

fun alts :: "rx list \<Rightarrow> rx" where
  "alts [] = Eps"
| "alts [r] = r"
| "alts (r # r' # rs) = Alt r (alts (r' # rs))"

definition opt :: "rx \<Rightarrow> rx" where
  "opt r = Alt r Eps"

definition plus :: "rx \<Rightarrow> rx" where
  "plus r = Seq r (Star r)"

fun rep :: "nat \<Rightarrow> rx \<Rightarrow> rx" where
  "rep 0 r = Eps"
| "rep (Suc n) r = Seq r (rep n r)"

fun rep_upto :: "nat \<Rightarrow> rx \<Rightarrow> rx" where
  "rep_upto 0 r = Eps"
| "rep_upto (Suc n) r = Alt (Seq r (rep_upto n r)) Eps"

definition rep_between :: "nat \<Rightarrow> nat \<Rightarrow> rx \<Rightarrow> rx" where
  "rep_between m n r = Seq (rep m r) (rep_upto (n - m) r)"

definition rep_at_least :: "nat \<Rightarrow> rx \<Rightarrow> rx" where
  "rep_at_least m r = Seq (rep m r) (Star r)"

definition digit :: rx where
  "digit = OneOf digit_chars"

definition space :: rx where
  "space = OneOf space_chars"

definition word_char :: rx where
  "word_char = OneOf word_chars"

definition letter :: rx where
  "letter = OneOf (upper_chars @ lower_chars)"

definition any_char :: rx where
  "any_char = NoneOf [CHR 0x0A]"

section \<open>Calendar dates\<close>

text \<open>
  \<^verbatim>\<open>datetime(year, month, day)\<close> raises \<^verbatim>\<open>ValueError\<close> unless the date exists
  (years 1 to 9999); a date is represented by its proleptic Gregorian ordinal, so that
  differences are numbers of days.
\<close>

definition is_leap :: "nat \<Rightarrow> bool" where
  "is_leap y = (y mod 4 = 0 \<and> (y mod 100 \<noteq> 0 \<or> y mod 400 = 0))"

definition days_in_month :: "nat \<Rightarrow> nat \<Rightarrow> nat" where
  "days_in_month y m =
     (if m = 2 then (if is_leap y then 29 else 28)
      else if m \<in> set [4, 6, 9, 11] then 30 else 31)"

definition days_before_year :: "nat \<Rightarrow> nat" where
  "days_before_year y = (y - 1) * 365 + (y - 1) div 4 - (y - 1) div 100 + (y - 1) div 400"

definition days_before_month :: "nat \<Rightarrow> nat \<Rightarrow> nat" where
  "days_before_month y m = sum_list (map (days_in_month y) [1 ..< m])"

definition datetime :: "nat \<Rightarrow> nat \<Rightarrow> nat \<Rightarrow> error + nat" where
  "datetime y m d =
     (if y < 1 \<or> 9999 < y then Inl (ValueError ''year is out of range'')
      else if m < 1 \<or> 12 < m then Inl (ValueError ''month must be in 1..12'')
      else if d < 1 \<or> days_in_month y m < d then Inl (ValueError ''day is out of range for month'')
      else Inr (days_before_year y + days_before_month y m + d))"

text \<open>The date pattern \<^verbatim>\<open>\d{1,2}/\d{1,2}/\d{4}\<close> shared by both text services.\<close>

definition slash_date_pattern :: rx where
  "slash_date_pattern =
     seqs [rep_between 1 2 digit, Lit (CHR ''/''), rep_between 1 2 digit, Lit (CHR ''/''),
           rep 4 digit]"

text \<open>
  The loop that both services run over date strings:
  \<^verbatim>\<open>parts = date_str.split('/')\<close>, and for three parts the month, day and year are
  converted with \<^verbatim>\<open>int\<close> and passed to \<^verbatim>\<open>datetime(year, month, day)\<close>. A string with
  another number of parts is skipped; the first invalid date raises \<^verbatim>\<open>ValueError\<close>.
\<close>

definition parse_date :: "string \<Rightarrow> (error + nat) option" where
  "parse_date date_str =
     (case split_on (CHR ''/'') date_str of
        [m, d, y] \<Rightarrow>
          Some (and_then (py_int m) (\<lambda>month.
                and_then (py_int d) (\<lambda>day.
                and_then (py_int y) (\<lambda>year. datetime year month day))))
      | _ \<Rightarrow> None)"

fun parse_dates :: "string list \<Rightarrow> error + nat list" where
  "parse_dates [] = Inr []"
| "parse_dates (date_str # dates) =
     (case parse_date date_str of
        None \<Rightarrow> parse_dates dates
      | Some (Inl e) \<Rightarrow> Inl e
      | Some (Inr d) \<Rightarrow> and_then (parse_dates dates) (\<lambda>ds. Inr (d # ds)))"

definition nat_max :: "nat list \<Rightarrow> nat" where
  "nat_max xs = fold max (tl xs) (hd xs)"

definition nat_min :: "nat list \<Rightarrow> nat" where
  "nat_min xs = fold min (tl xs) (hd xs)"

section \<open>Amounts in text\<close>

text \<open>
  Both text services extract monetary amounts with the pattern
  \<^verbatim>\<open>\$?\s*\d{1,3}(?:,\d{3})*(?:\.\d{2})?\<close> and the same loop over the matches
  (\<^verbatim>\<open>_extract_amounts\<close> of the validator, \<^verbatim>\<open>_analyze_amounts\<close> of the fraud engine):
  \<^verbatim>\<open>clean_amount = re.sub(r'[^\d.]', '', match)\<close>, and the amount is kept
  \<^verbatim>\<open>if clean_amount and '.' in clean_amount\<close>; a \<^verbatim>\<open>ValueError\<close> of \<^verbatim>\<open>float\<close> skips
  the match.
\<close>

definition currency_pattern :: rx where
  "currency_pattern =
     seqs [opt (Lit (CHR ''$'')), Star space, rep_between 1 3 digit,
           Star (seqs [Lit (CHR '',''), rep 3 digit]),
           opt (seqs [Lit (CHR ''.''), rep 2 digit])]"

definition clean_amount :: "string \<Rightarrow> string" where
  "clean_amount m = filter (\<lambda>c. is_digit c \<or> c = CHR ''.'') m"

fun amounts_of_matches :: "string list \<Rightarrow> real list" where
  "amounts_of_matches [] = []"
| "amounts_of_matches (m # matches) =
     (let clean = clean_amount m
      in if clean \<noteq> [] \<and> CHR ''.'' \<in> set clean
         then (case float_of clean of
                 Inl e \<Rightarrow> amounts_of_matches matches
               | Inr a \<Rightarrow> a # amounts_of_matches matches)
         else amounts_of_matches matches)"

section \<open>Document Structural Validator (\<^verbatim>\<open>document_validator.py\<close>)\<close>

record rules =
  required_fields :: "string list"
  amount_pattern :: "rx option"
  date_pattern :: "rx option"
  min_text_length :: nat
  expected_keywords :: "string list"

text \<open>The amount pattern of the rule tables, \<^verbatim>\<open>\$\d+\.\d{2}\<close>.\<close>

definition dollar_cents_pattern :: rx where
  "dollar_cents_pattern = seqs [Lit (CHR ''$''), plus digit, Lit (CHR ''.''), rep 2 digit]"

definition general_rules :: rules where
  "general_rules =
     \<lparr> required_fields = [], amount_pattern = None, date_pattern = None,
       min_text_length = 10, expected_keywords = [] \<rparr>"

definition validation_rules :: "(string \<times> rules) list" where
  "validation_rules =
     [(''medical_bill'',
         \<lparr> required_fields = [''patient_name'', ''service_date'', ''amount'', ''provider''],
           amount_pattern = Some dollar_cents_pattern,
           date_pattern = Some slash_date_pattern,
           min_text_length = 50,
           expected_keywords = [''patient'', ''service'', ''bill'', ''medical'', ''treatment''] \<rparr>),
      (''vehicle_estimate'',
         \<lparr> required_fields = [''vehicle_info'', ''damage_description'', ''estimate_amount''],
           amount_pattern = Some dollar_cents_pattern,
           date_pattern = Some slash_date_pattern,
           min_text_length = 100,
           expected_keywords =
             [''vehicle'', ''repair'', ''estimate'', ''damage'', ''parts'', ''labor''] \<rparr>),
      (''invoice'',
         \<lparr> required_fields = [''invoice_number'', ''date'', ''amount'', ''vendor''],
           amount_pattern = Some dollar_cents_pattern,
           date_pattern = Some slash_date_pattern,
           min_text_length = 30,
           expected_keywords = [''invoice'', ''bill'', ''payment'', ''total'', ''due''] \<rparr>),
      (''receipt'',
         \<lparr> required_fields = [''date'', ''amount'', ''merchant''],
           amount_pattern = Some dollar_cents_pattern,
           date_pattern = Some slash_date_pattern,
           min_text_length = 20,
           expected_keywords = [''receipt'', ''total'', ''paid'', ''transaction''] \<rparr>),
      (''police_report'',
         \<lparr> required_fields = [''report_number'', ''date'', ''incident_description''],
           amount_pattern = None,
           date_pattern = Some slash_date_pattern,
           min_text_length = 100,
           expected_keywords =
             [''police'', ''report'', ''incident'', ''officer'', ''case'', ''accident''] \<rparr>),
      (''general'', general_rules)]"

text \<open>\<^verbatim>\<open>self.validation_rules.get(document_type, self.validation_rules["general"])\<close>.\<close>

definition rules_for :: "string \<Rightarrow> rules" where
  "rules_for document_type =
     (case map_of validation_rules document_type of None \<Rightarrow> general_rules | Some r \<Rightarrow> r)"

definition suspicious_indicators :: "string list" where
  "suspicious_indicators =
     [''lorem ipsum'', ''sample text'', ''placeholder'', ''test document'', ''draft'',
      ''copy of copy'', ''duplicate'']"

text \<open>\<^verbatim>\<open>self.patterns\<close>: the entries that the validator uses.\<close>

definition email_pattern :: rx where
  "email_pattern =
     seqs [WordB, plus (OneOf (upper_chars @ lower_chars @ digit_chars @ ''._%+-'')),
           Lit (CHR ''@''), plus (OneOf (upper_chars @ lower_chars @ digit_chars @ ''.-'')),
           Lit (CHR ''.''), rep_at_least 2 (OneOf (upper_chars @ ''|'' @ lower_chars)), WordB]"

definition phone_pattern :: rx where
  "phone_pattern =
     seqs [WordB, rep 3 digit, opt (OneOf ''-.''), rep 3 digit, opt (OneOf ''-.''),
           rep 4 digit, WordB]"

definition vin_pattern :: rx where
  "vin_pattern =
     seqs [WordB, rep 17 (OneOf (''ABCDEFGHJKLMNPRSTUVWXYZ'' @ digit_chars)), WordB]"

subsection \<open>\<^verbatim>\<open>_validate_text_content\<close>\<close>

definition repetition_ratio_of :: "string list \<Rightarrow> real" where
  "repetition_ratio_of words =
     (if words \<noteq> [] then 1 - real (length (remdups words)) / real (length words) else 0)"

definition text_validation_issues :: "string \<Rightarrow> rules \<Rightarrow> string list" where
  "text_validation_issues text rules =
     (let min_length = min_text_length rules;
          issues = (if length text < min_length
                    then [''Text too short: '' @ str_nat (length text)
                            @ '' characters (minimum: '' @ str_nat min_length @ '')'']
                    else []);
          text_lower = lower text;
          issues = issues @ map (\<lambda>indicator. ''Suspicious content detected: '' @ indicator)
                              (filter (\<lambda>indicator. str_in indicator text_lower)
                                 suspicious_indicators);
          expected = expected_keywords rules;
          issues = issues @
            (if expected \<noteq> []
             then (let found_keywords = filter (\<lambda>kw. str_in (lower kw) text_lower) expected
                   in if real (length found_keywords) < real (length expected) * (5 / 10)
                      then [''Missing expected keywords. Found: '' @ repr_list found_keywords]
                      else [])
             else []);
          word_count = length (split_ws text);
          issues = issues @ (if word_count < 5 then [''Text has too few words''] else []);
          words = split_ws (lower text);
          issues = issues @ (if repetition_ratio_of words > 7 / 10
                             then [''Excessive word repetition detected''] else [])
      in issues)"

definition text_stats :: "string \<Rightarrow> pydict" where
  "text_stats text =
     (let words = split_ws (lower text)
      in [(''length'', PInt (int (length text))),
          (''word_count'', PInt (int (length (split_ws text)))),
          (''unique_words'', PInt (int (length (remdups words)))),
          (''repetition_ratio'',
             (if words \<noteq> [] then PFloat (repetition_ratio_of words) else PInt 0))])"

definition validate_text_content :: "string \<Rightarrow> rules \<Rightarrow> pydict" where
  "validate_text_content text rules =
     [(''text_validation_issues'', PList (map PStr (text_validation_issues text rules))),
      (''text_stats'', PDict (text_stats text))]"

subsection \<open>\<^verbatim>\<open>_validate_document_structure\<close>\<close>

text \<open>
  \<^verbatim>\<open>_is_reasonable_date\<close>. \<open>today\<close> is the ordinal of the day on which the code runs
  (\<^verbatim>\<open>datetime.now()\<close>); a date, being a midnight, is later than
  \<^verbatim>\<open>datetime.now() + timedelta(days=30)\<close> exactly when its day is more than 30 days after
  today. Every exception of the conversions is caught and gives \<^verbatim>\<open>False\<close>.
\<close>

definition is_reasonable_date :: "nat \<Rightarrow> string \<Rightarrow> bool" where
  "is_reasonable_date today date_str =
     (case split_on (CHR ''/'') date_str of
        [p0, p1, p2] \<Rightarrow>
          (case and_then (py_int p0) (\<lambda>month.
                and_then (py_int p1) (\<lambda>day.
                and_then (py_int p2) (\<lambda>year. Inr (month, day, year)))) of
             Inl e \<Rightarrow> False
           | Inr (month, day, year) \<Rightarrow>
               if \<not> (1 \<le> month \<and> month \<le> 12) then False
               else if \<not> (1 \<le> day \<and> day \<le> 31) then False
               else if \<not> (1900 \<le> year \<and> year \<le> 2030) then False
               else (case datetime year month day of
                       Inl e \<Rightarrow> False
                     | Inr date_obj \<Rightarrow> if date_obj > today + 30 then False else True))
      | _ \<Rightarrow> False)"

text \<open>The loops \<^verbatim>\<open>if not any(keyword in text_lower for keyword in keywords)\<close> over a
  table of named keyword groups.\<close>

definition missing_elements ::
    "(string \<times> string list) list \<Rightarrow> string \<Rightarrow> string \<Rightarrow> string list" where
  "missing_elements elements suffix text_lower =
     map (\<lambda>(element_name, keywords). ''Missing '' @ element_name @ suffix)
       (filter (\<lambda>(element_name, keywords). \<not> list_ex (\<lambda>keyword. str_in keyword text_lower) keywords)
          elements)"

definition icd_pattern :: rx where
  "icd_pattern =
     seqs [WordB, OneOf upper_chars, rep 2 digit,
           opt (seqs [Lit (CHR ''.''), rep_between 1 2 digit]), WordB]"

definition cpt_pattern :: rx where
  "cpt_pattern = seqs [WordB, rep 5 digit, WordB]"

definition validate_medical_bill_structure :: "string \<Rightarrow> string list" where
  "validate_medical_bill_structure text =
     (let text_lower = lower text;
          issues = missing_elements
            [(''patient information'', [''patient'', ''name'']),
             (''provider information'', [''provider'', ''doctor'', ''hospital'', ''clinic'']),
             (''service information'', [''service'', ''treatment'', ''procedure'']),
             (''billing information'', [''bill'', ''charge'', ''amount'', ''total''])]
            '' section'' text_lower;
          icd_codes = rx_findall False icd_pattern text;
          cpt_codes = rx_findall False cpt_pattern text
      in issues @ (if icd_codes = [] \<and> cpt_codes = []
                   then [''No medical billing codes (ICD/CPT) found''] else []))"

definition validate_vehicle_estimate_structure :: "string \<Rightarrow> string list" where
  "validate_vehicle_estimate_structure text =
     (let text_lower = lower text;
          issues = missing_elements
            [(''vehicle information'',
                [''vehicle'', ''car'', ''truck'', ''vin'', ''year'', ''make'', ''model'']),
             (''damage description'', [''damage'', ''repair'', ''replace'', ''parts'']),
             (''cost breakdown'', [''labor'', ''parts'', ''total'', ''estimate''])]
            '' section'' text_lower
      in issues @ (if \<not> rx_found False vin_pattern text then [''No VIN number found''] else []))"

definition validate_invoice_structure :: "string \<Rightarrow> string list" where
  "validate_invoice_structure text =
     missing_elements
       [(''header'', [''invoice'', ''receipt'', ''bill'']),
        (''vendor info'', [''from'', ''vendor'', ''company'', ''business'']),
        (''amount'', [''total'', ''amount'', ''due'', ''paid''])]
       '' information'' (lower text)"

definition structure_validation_issues :: "nat \<Rightarrow> string \<Rightarrow> string \<Rightarrow> rules \<Rightarrow> string list" where
  "structure_validation_issues today text document_type rules =
     (let issues =
            (case amount_pattern rules of
               None \<Rightarrow> []
             | Some pattern \<Rightarrow>
                 (let amounts = rx_findall False pattern text
                  in if amounts = [] then [''No monetary amounts found in expected format'']
                     else if length amounts > 10
                     then [''Too many monetary amounts detected (possible OCR errors)'']
                     else []));
          issues = issues @
            (case date_pattern rules of
               None \<Rightarrow> []
             | Some pattern \<Rightarrow>
                 (let dates = rx_findall False pattern text
                  in if dates = [] then [''No dates found in expected format'']
                     else map (\<lambda>date_str. ''Unreasonable date detected: '' @ date_str)
                            (filter (\<lambda>date_str. \<not> is_reasonable_date today date_str) dates)));
          issues = issues @
            (if document_type = ''medical_bill'' then validate_medical_bill_structure text
             else if document_type = ''vehicle_estimate''
             then validate_vehicle_estimate_structure text
             else if document_type \<in> set [''invoice'', ''receipt'']
             then validate_invoice_structure text
             else [])
      in issues)"

definition validate_document_structure :: "nat \<Rightarrow> string \<Rightarrow> string \<Rightarrow> rules \<Rightarrow> pydict" where
  "validate_document_structure today text document_type rules =
     [(''structure_validation_issues'',
         PList (map PStr (structure_validation_issues today text document_type rules)))]"

subsection \<open>\<^verbatim>\<open>_validate_content_authenticity\<close>\<close>

text \<open>The placeholder patterns, each with its source text (which the issue quotes):
  \<^verbatim>\<open>xxx+\<close>, \<^verbatim>\<open>\[.*\]\<close>, \<^verbatim>\<open><.*>\<close>, \<^verbatim>\<open>placeholder\<close>, \<^verbatim>\<open>sample\<close>, \<^verbatim>\<open>lorem ipsum\<close>;
  they are searched with \<^verbatim>\<open>re.IGNORECASE\<close>.\<close>

definition placeholder_patterns :: "(string \<times> rx) list" where
  "placeholder_patterns =
     [(''xxx+'', seqs [Lit (CHR ''x''), Lit (CHR ''x''), plus (Lit (CHR ''x''))]),
      ([CHR 0x5C] @ ''[.*'' @ [CHR 0x5C] @ '']'',
         seqs [Lit (CHR ''[''), Star any_char, Lit (CHR '']'')]),
      (''<.*>'', seqs [Lit (CHR ''<''), Star any_char, Lit (CHR ''>'')]),
      (''placeholder'', word ''placeholder''),
      (''sample'', word ''sample''),
      (''lorem ipsum'', word ''lorem ipsum'')]"

definition extract_amounts :: "string \<Rightarrow> real list" where
  "extract_amounts text = amounts_of_matches (rx_findall False currency_pattern text)"

definition dash_date_pattern :: rx where
  "dash_date_pattern =
     seqs [rep_between 1 2 digit, Lit (CHR ''-''), rep_between 1 2 digit, Lit (CHR ''-''),
           rep 4 digit]"

definition iso_date_pattern :: rx where
  "iso_date_pattern =
     seqs [rep 4 digit, Lit (CHR ''-''), rep_between 1 2 digit, Lit (CHR ''-''),
           rep_between 1 2 digit]"

text \<open>\<^verbatim>\<open>_extract_dates\<close> returns \<^verbatim>\<open>list(set(dates))\<close>: the distinct matches, in an order
  that Python does not fix; the model keeps the last occurrence of each.\<close>

definition extract_dates :: "string \<Rightarrow> string list" where
  "extract_dates text =
     remdups (concat (map (\<lambda>pattern. rx_findall False pattern text)
                        [slash_date_pattern, dash_date_pattern, iso_date_pattern]))"

text \<open>
  \<^verbatim>\<open>_has_formatting_inconsistencies\<close>. The indentation test reads
  \<^verbatim>\<open>np.var(space_counts) if 'np' in globals() else 0\<close>; the module does not import numpy,
  so \<^verbatim>\<open>space_variance\<close> is 0.
\<close>

definition number_pattern :: rx where
  "number_pattern = seqs [plus digit, opt (OneOf '',.''), Star digit]"

definition has_formatting_inconsistencies :: "string \<Rightarrow> bool" where
  "has_formatting_inconsistencies text =
     (let lines = split_on (CHR 0x0A) text;
          space_counts = map (\<lambda>line. length line - length (lstrip line))
                           (filter (\<lambda>line. strip line \<noteq> []) lines);
          space_variance = (0 :: real)
      in if space_counts \<noteq> [] \<and> space_variance > 100 then True
         else (let amounts = rx_findall False number_pattern text;
                   comma_amounts = filter (\<lambda>a. CHR '','' \<in> set a) amounts;
                   dot_amounts = filter (\<lambda>a. CHR ''.'' \<in> set a) amounts
               in if amounts \<noteq> [] \<and> comma_amounts \<noteq> [] \<and> dot_amounts \<noteq> []
                     \<and> length comma_amounts \<noteq> length dot_amounts
                  then True else False))"

text \<open>\<^verbatim>\<open>_has_unusual_characters\<close>; the pattern is \<^verbatim>\<open>(.)\1{5,}\<close>.\<close>

definition repeated_pattern :: rx where
  "repeated_pattern = seqs [Group 1 any_char, rep_at_least 5 (Backref 1)]"

definition has_unusual_characters :: "string \<Rightarrow> bool" where
  "has_unusual_characters text =
     (let special_char_count = length (filter (\<lambda>c. \<not> is_alnum c \<and> \<not> is_space c) text)
      in if real special_char_count > real (length text) * (3 / 10) then True
         else if rx_findall False repeated_pattern text \<noteq> [] then True
         else False)"

text \<open>\<^verbatim>\<open>_has_data_integrity_issues\<close>: an invalid date among several (a
  \<^verbatim>\<open>ValueError\<close> of \<^verbatim>\<open>datetime\<close>) counts as an issue.\<close>

definition has_data_integrity_issues :: "string \<Rightarrow> bool" where
  "has_data_integrity_issues text =
     (let amounts = extract_amounts text
      in if amounts \<noteq> [] \<and> list_max amounts > 1000000 then True
         else (let dates = extract_dates text
               in if length dates > 1
                  then (case parse_dates dates of
                          Inl e \<Rightarrow> True
                        | Inr parsed_dates \<Rightarrow>
                            if parsed_dates \<noteq> []
                               \<and> nat_max parsed_dates - nat_min parsed_dates > 365
                            then True else False)
                  else False))"

text \<open>The loop over the placeholder patterns: one issue and a deduction of 0.2 for each
  pattern found.\<close>

definition placeholder_hits :: "string \<Rightarrow> string list" where
  "placeholder_hits text =
     map fst (filter (\<lambda>(source, pattern). rx_found True pattern text) placeholder_patterns)"

definition authenticity_validation_issues :: "string \<Rightarrow> string list" where
  "authenticity_validation_issues text =
     map (\<lambda>source. ''Placeholder text detected: '' @ source) (placeholder_hits text)
     @ (if has_formatting_inconsistencies text then [''Formatting inconsistencies detected'']
        else [])
     @ (if has_unusual_characters text then [''Unusual character patterns detected''] else [])
     @ (if has_data_integrity_issues text then [''Data integrity issues detected''] else [])"

definition authenticity_score_of :: "string \<Rightarrow> real" where
  "authenticity_score_of text =
     (let authenticity_score = 1 - (2 / 10) * real (length (placeholder_hits text));
          authenticity_score = (if has_formatting_inconsistencies text
                                then authenticity_score - 1 / 10 else authenticity_score);
          authenticity_score = (if has_unusual_characters text
                                then authenticity_score - 1 / 10 else authenticity_score);
          authenticity_score = (if has_data_integrity_issues text
                                then authenticity_score - 2 / 10 else authenticity_score)
      in max 0 authenticity_score)"

definition validate_content_authenticity :: "string \<Rightarrow> string \<Rightarrow> pydict" where
  "validate_content_authenticity text document_type =
     [(''authenticity_validation_issues'', PList (map PStr (authenticity_validation_issues text))),
      (''authenticity_score'', PFloat (authenticity_score_of text))]"

subsection \<open>\<^verbatim>\<open>_extract_and_validate_data\<close>\<close>

text \<open>The loops \<^verbatim>\<open>for pattern in patterns: match = re.search(pattern, text,
  re.IGNORECASE); if match: ...; break\<close>: the groups of the first pattern that matches.\<close>

fun first_match :: "rx list \<Rightarrow> string \<Rightarrow> (string \<times> (nat \<times> string) list) option" where
  "first_match [] text = None"
| "first_match (pattern # patterns) text =
     (case rx_search True pattern text of
        None \<Rightarrow> first_match patterns text
      | Some m \<Rightarrow> Some m)"

definition group :: "(string \<times> (nat \<times> string) list) \<Rightarrow> nat \<Rightarrow> string" where
  "group m n = (case map_of (snd m) n of None \<Rightarrow> [] | Some s \<Rightarrow> s)"

definition labelled :: "string list \<Rightarrow> rx \<Rightarrow> rx" where
  "labelled labels body = seqs [alts (map word labels), Lit (CHR '':''), Star space, Group 1 body]"

definition name_chars :: rx where
  "name_chars = plus (OneOf (upper_chars @ lower_chars @ space_chars))"

definition extract_medical_data :: "string \<Rightarrow> pydict" where
  "extract_medical_data text =
     (let data = [];
          data = (case first_match [labelled [''Patient'', ''Name''] name_chars,
                                    labelled [''Patient Name''] name_chars] text of
                    None \<Rightarrow> data
                  | Some m \<Rightarrow> dict_set data ''patient_name'' (PStr (strip (group m 1))));
          data = (case first_match [labelled [''Service'', ''Date of Service''] slash_date_pattern,
                                    labelled [''Date''] slash_date_pattern] text of
                    None \<Rightarrow> data
                  | Some m \<Rightarrow> dict_set data ''service_date'' (PStr (group m 1)));
          data = (case first_match [labelled [''Provider'', ''Doctor'', ''Physician''] name_chars,
                                    labelled [''Hospital'', ''Clinic''] name_chars] text of
                    None \<Rightarrow> data
                  | Some m \<Rightarrow> dict_set data ''provider'' (PStr (strip (group m 1))))
      in data)"

text \<open>The vehicle patterns \<^verbatim>\<open>(\d{4})\s+([A-Za-z]+)\s+([A-Za-z]+)\<close> (three groups) and
  \<^verbatim>\<open>Vehicle:\s*([A-Za-z0-9\s]+)\<close> (one group); \<^verbatim>\<open>len(match.groups())\<close> tells them
  apart.\<close>

definition year_make_model_pattern :: rx where
  "year_make_model_pattern =
     seqs [Group 1 (rep 4 digit), plus space, Group 2 (plus letter), plus space,
           Group 3 (plus letter)]"

definition description_chars :: rx where
  "description_chars =
     plus (OneOf (upper_chars @ lower_chars @ digit_chars @ space_chars @ '',.-''))"

definition extract_vehicle_data :: "string \<Rightarrow> pydict" where
  "extract_vehicle_data text =
     (let data = [];
          data = (case rx_search False vin_pattern text of
                    None \<Rightarrow> data
                  | Some m \<Rightarrow> dict_set data ''vin'' (PStr (fst m)));
          data = (case rx_search True year_make_model_pattern text of
                    Some m \<Rightarrow>
                      dict_set (dict_set (dict_set data ''vehicle_year'' (PStr (group m 1)))
                                  ''vehicle_make'' (PStr (group m 2)))
                        ''vehicle_model'' (PStr (group m 3))
                  | None \<Rightarrow>
                      (case rx_search True
                              (labelled [''Vehicle'']
                                 (plus (OneOf (upper_chars @ lower_chars @ digit_chars
                                                 @ space_chars)))) text of
                         None \<Rightarrow> data
                       | Some m \<Rightarrow> dict_set data ''vehicle_info'' (PStr (strip (group m 1)))));
          data = (case first_match [labelled [''Damage'', ''Description''] description_chars,
                                    labelled [''Repair'', ''Fix''] description_chars] text of
                    None \<Rightarrow> data
                  | Some m \<Rightarrow> dict_set data ''damage_description'' (PStr (strip (group m 1))))
      in data)"

text \<open>The invoice number patterns \<^verbatim>\<open>(?:Invoice|Receipt)\s*#?\s*(\w+)\<close> and
  \<^verbatim>\<open>(?:Number|No):\s*(\w+)\<close>.\<close>

definition invoice_number_pattern :: rx where
  "invoice_number_pattern =
     seqs [alts [word ''Invoice'', word ''Receipt''], Star space, opt (Lit (CHR ''#'')),
           Star space, Group 1 (plus word_char)]"

definition extract_invoice_data :: "string \<Rightarrow> pydict" where
  "extract_invoice_data text =
     (let data = [];
          data = (case first_match [invoice_number_pattern,
                                    labelled [''Number'', ''No''] (plus word_char)] text of
                    None \<Rightarrow> data
                  | Some m \<Rightarrow> dict_set data ''invoice_number'' (PStr (group m 1)));
          data = (case first_match [labelled [''From'', ''Vendor'', ''Company''] name_chars,
                                    labelled [''Merchant'', ''Business''] name_chars] text of
                    None \<Rightarrow> data
                  | Some m \<Rightarrow> dict_set data ''vendor'' (PStr (strip (group m 1))))
      in data)"

text \<open>Reading a list of strings or of numbers back out of a dictionary value.\<close>

fun str_items :: "pyval \<Rightarrow> string list" where
  "str_items (PList xs) = concat (map (\<lambda>v. case v of PStr s \<Rightarrow> [s] | _ \<Rightarrow> []) xs)"
| "str_items v = []"

fun float_items :: "pyval \<Rightarrow> real list" where
  "float_items (PList xs) = concat (map (\<lambda>v. case v of PFloat r \<Rightarrow> [r] | _ \<Rightarrow> []) xs)"
| "float_items v = []"

text \<open>\<^verbatim>\<open>_cross_validate_data\<close>; here a date that does not convert is skipped.\<close>

definition cross_validate_data :: "pydict \<Rightarrow> string \<Rightarrow> string list" where
  "cross_validate_data data document_type =
     (let dates = str_items (dict_get data ''dates'' (PList []));
          parsed_dates = concat (map (\<lambda>date_str. case parse_date date_str of
                                        Some (Inr d) \<Rightarrow> [d] | _ \<Rightarrow> []) dates);
          issues = (if length dates > 1 \<and> parsed_dates \<noteq> []
                       \<and> nat_max parsed_dates - nat_min parsed_dates > 90
                    then [''Inconsistent dates detected''] else []);
          amounts = float_items (dict_get data ''amounts'' (PList []));
          issues = issues @
            (if amounts \<noteq> []
                \<and> list_max amounts - list_min amounts > list_max amounts * (5 / 10)
             then [''Large variance in monetary amounts''] else []);
          issues = issues @
            (if document_type = ''medical_bill''
                \<and> dict_has data ''patient_name'' \<and> dict_has data ''provider''
             then (case (dict_get data ''patient_name'' PNone, dict_get data ''provider'' PNone) of
                     (PStr patient, PStr provider) \<Rightarrow>
                       if patient \<noteq> [] \<and> provider \<noteq> [] \<and> lower patient = lower provider
                       then [''Patient and provider names are identical''] else []
                   | _ \<Rightarrow> [])
             else [])
      in issues)"

definition extracted_data_of :: "string \<Rightarrow> string \<Rightarrow> pydict" where
  "extracted_data_of text document_type =
     (let extracted_data =
            [(''emails'', PList (map PStr (rx_findall False email_pattern text))),
             (''phones'', PList (map PStr (rx_findall False phone_pattern text))),
             (''amounts'', PList (map PFloat (extract_amounts text))),
             (''dates'', PList (map PStr (extract_dates text)))]
      in if document_type = ''medical_bill''
         then dict_update extracted_data (extract_medical_data text)
         else if document_type = ''vehicle_estimate''
         then dict_update extracted_data (extract_vehicle_data text)
         else if document_type \<in> set [''invoice'', ''receipt'']
         then dict_update extracted_data (extract_invoice_data text)
         else extracted_data)"

definition data_validation_issues :: "string \<Rightarrow> string \<Rightarrow> rules \<Rightarrow> string list" where
  "data_validation_issues text document_type rules =
     (let extracted_data = extracted_data_of text document_type;
          issues = map (\<lambda>field. ''Required field missing: '' @ field)
                     (filter (\<lambda>field. \<not> dict_has extracted_data field
                                        \<or> \<not> truthy (dict_get extracted_data field PNone))
                        (required_fields rules))
      in issues @ cross_validate_data extracted_data document_type)"

definition extract_and_validate_data :: "string \<Rightarrow> string \<Rightarrow> rules \<Rightarrow> pydict" where
  "extract_and_validate_data text document_type rules =
     [(''data_validation_issues'', PList (map PStr (data_validation_issues text document_type rules))),
      (''data'', PDict (extracted_data_of text document_type))]"

subsection \<open>Merging and scoring\<close>

text \<open>
  \<^verbatim>\<open>_merge_validation_results\<close>: a key ending in \<^verbatim>\<open>_issues\<close> with a list value extends
  \<^verbatim>\<open>main_result["issues"]\<close>; the key \<^verbatim>\<open>authenticity_score\<close> is averaged into
  \<^verbatim>\<open>confidence\<close> (and is not stored); any other key is copied.
\<close>

fun is_list :: "pyval \<Rightarrow> bool" where
  "is_list (PList xs) = True"
| "is_list v = False"

fun merge_validation_results :: "pydict \<Rightarrow> pydict \<Rightarrow> error + pydict" where
  "merge_validation_results main_result [] = Inr main_result"
| "merge_validation_results main_result ((key, val) # additional_result) =
     (if ends_with key ''_issues'' \<and> is_list val
      then and_then (dict_index main_result ''issues'') (\<lambda>issues.
           and_then (items_of issues) (\<lambda>issues.
           and_then (items_of val) (\<lambda>more.
             merge_validation_results (dict_set main_result ''issues'' (PList (issues @ more)))
               additional_result)))
      else if key = ''authenticity_score''
      then and_then (num_of (dict_get main_result ''confidence'' (PFloat 1))) (\<lambda>current_confidence.
           and_then (num_of val) (\<lambda>v.
             merge_validation_results
               (dict_set main_result ''confidence'' (PFloat ((current_confidence + v) / 2)))
               additional_result))
      else merge_validation_results (dict_set main_result key val) additional_result)"

text \<open>\<^verbatim>\<open>len(x)\<close>.\<close>

fun py_len :: "pyval \<Rightarrow> error + nat" where
  "py_len (PStr s) = Inr (length s)"
| "py_len (PList xs) = Inr (length xs)"
| "py_len (PDict d) = Inr (length d)"
| "py_len v = Inl (TypeError (''object of type '' @ quote (type_name v) @ '' has no len()''))"

text \<open>\<^verbatim>\<open>_calculate_validation_score\<close>, with its own handler that returns 0.5.\<close>

definition calculate_validation_score_body :: "pydict \<Rightarrow> error + real" where
  "calculate_validation_score_body result =
     (let base_score = 1
      in and_then (py_len (dict_get result ''issues'' (PList []))) (\<lambda>issue_count.
         let base_score = base_score - min (8 / 10) (real issue_count * (1 / 10))
         in and_then (num_of (dict_get result ''confidence'' (PFloat 1))) (\<lambda>confidence.
            let base_score = base_score * confidence
            in and_then (num_of (dict_get result ''authenticity_score'' (PFloat 1))) (\<lambda>authenticity.
               let base_score = (base_score + authenticity) / 2
               in Inr (max 0 (min 1 base_score))))))"

definition calculate_validation_score :: "pydict \<Rightarrow> real" where
  "calculate_validation_score result =
     (case calculate_validation_score_body result of Inl e \<Rightarrow> 1 / 2 | Inr s \<Rightarrow> s)"

subsection \<open>\<^verbatim>\<open>validate_document\<close>\<close>

text \<open>
  The \<^verbatim>\<open>try\<close> block. \<open>extracted_text\<close> is whatever value the caller passes; \<open>today\<close> is
  the day of the call. The result of the text check is merged with \<^verbatim>\<open>dict.update\<close>, the
  results of the other three checks with \<^verbatim>\<open>_merge_validation_results\<close>.
\<close>

definition validate_document_body ::
    "nat \<Rightarrow> nat list \<Rightarrow> string \<Rightarrow> string \<Rightarrow> pyval \<Rightarrow> error + pydict" where
  "validate_document_body today content filename document_type extracted_text =
     (let validation_result =
            [(''is_valid'', PBool True), (''validation_score'', PFloat 1), (''issues'', PList []),
             (''extracted_data'', PDict []), (''confidence'', PFloat 1)];
          rules = rules_for document_type
      in and_then (text_arg ''lower'' extracted_text) (\<lambda>text.
         let text_validation = validate_text_content text rules;
             validation_result = dict_update validation_result text_validation;
             structure_validation = validate_document_structure today text document_type rules
         in and_then (merge_validation_results validation_result structure_validation)
              (\<lambda>validation_result.
         let content_validation = validate_content_authenticity text document_type
         in and_then (merge_validation_results validation_result content_validation)
              (\<lambda>validation_result.
         let data_validation = extract_and_validate_data text document_type rules
         in and_then (dict_index data_validation ''data'') (\<lambda>data.
         let validation_result = dict_set validation_result ''extracted_data'' data
         in and_then (merge_validation_results validation_result data_validation)
              (\<lambda>validation_result.
         let validation_score = calculate_validation_score validation_result;
             validation_result =
               dict_set validation_result ''validation_score'' (PFloat validation_score);
             validation_result =
               dict_set validation_result ''is_valid'' (PBool (validation_score \<ge> 6 / 10))
         in Inr validation_result))))))"

definition validate_document ::
    "nat \<Rightarrow> nat list \<Rightarrow> string \<Rightarrow> string \<Rightarrow> pyval \<Rightarrow> error + pydict" where
  "validate_document today content filename document_type extracted_text =
     (case validate_document_body today content filename document_type extracted_text of
        Inl e \<Rightarrow> Inr [(''is_valid'', PBool False), (''validation_score'', PFloat 0),
                       (''issues'', PList [PStr (''Validation error: '' @ error_str e)]),
                       (''extracted_data'', PDict []), (''confidence'', PFloat 0)]
      | Inr r \<Rightarrow> Inr r)"

subsection \<open>What a run of the validator computes\<close>

text \<open>
  Two abbreviations for stating results: the issues of the structural, authenticity and
  extraction checks in this order, and the score that
  \<^verbatim>\<open>_calculate_validation_score\<close> computes from \<open>n\<close> issues and authenticity score \<open>a\<close>
  when the result has no key \<^verbatim>\<open>authenticity_score\<close>. That the code computes exactly
  these is lemma \<open>validate_document_body_str\<close>.
\<close>

definition merged_issues :: "nat \<Rightarrow> string \<Rightarrow> string \<Rightarrow> string list" where
  "merged_issues today document_type text =
     structure_validation_issues today text document_type (rules_for document_type)
     @ authenticity_validation_issues text
     @ data_validation_issues text document_type (rules_for document_type)"

definition score_of :: "nat \<Rightarrow> real \<Rightarrow> real" where
  "score_of n a =
     max 0 (min 1 (((1 - min (8 / 10) (real n * (1 / 10))) * ((1 + a) / 2) + 1) / 2))"

section \<open>Text Fraud Signal Engine (\<^verbatim>\<open>fraud_detection_service.py\<close>)\<close>

definition fraud_keywords :: "string list" where
  "fraud_keywords =
     [''fake'', ''forged'', ''altered'', ''modified'', ''suspicious'',
      ''emergency'', ''urgent'', ''immediate'', ''rush'', ''asap'',
      ''cash only'', ''no receipt'', ''lost receipt'', ''damaged receipt'']"

text \<open>\<^verbatim>\<open>self.amount_thresholds\<close>: low, high and average amount per claim type.\<close>

definition amount_thresholds :: "(string \<times> (real \<times> real \<times> real)) list" where
  "amount_thresholds =
     [(''health'', (100, 50000, 2500)),
      (''vehicle'', (500, 100000, 5000)),
      (''travel'', (50, 10000, 800)),
      (''product_warranty'', (20, 5000, 300)),
      (''pet'', (100, 15000, 1200)),
      (''agricultural'', (1000, 500000, 25000))]"

text \<open>\<^verbatim>\<open>self.suspicious_patterns\<close>: \<^verbatim>\<open>\b\d+00\.00\b\<close>, \<^verbatim>\<open>(\$\d+\.?\d*)\<close>, the date
  pattern, and the four literal markers of missing information.\<close>

definition round_numbers_pattern :: rx where
  "round_numbers_pattern =
     seqs [WordB, plus digit, Lit (CHR ''0''), Lit (CHR ''0''), Lit (CHR ''.''),
           Lit (CHR ''0''), Lit (CHR ''0''), WordB]"

definition duplicate_amounts_pattern :: rx where
  "duplicate_amounts_pattern = seqs [Lit (CHR ''$''), plus digit, opt (Lit (CHR ''.'')), Star digit]"

definition missing_info_patterns :: "string list" where
  "missing_info_patterns = [''N/A'', ''Unknown'', ''TBD'', ''--'']"

subsection \<open>\<^verbatim>\<open>_extract_text_features\<close>\<close>

definition word_count_of :: "string \<Rightarrow> nat" where
  "word_count_of text = length (split_ws text)"

definition detected_fraud_keywords :: "string \<Rightarrow> string list" where
  "detected_fraud_keywords text = filter (\<lambda>keyword. str_in keyword (lower text)) fraud_keywords"

definition fraud_keyword_count :: "string \<Rightarrow> nat" where
  "fraud_keyword_count text = length (detected_fraud_keywords text)"

definition extract_text_features :: "string \<Rightarrow> pydict" where
  "extract_text_features text =
     (let word_count = word_count_of text;
          words = split_ws (lower text);
          unique_words = remdups words
      in [(''text_length'', PInt (int (length text))),
          (''word_count'', PInt (int word_count)),
          (''sentence_count'', PInt (int (length (split_on (CHR ''.'') text)))),
          (''fraud_keyword_count'', PInt (int (fraud_keyword_count text))),
          (''fraud_keyword_ratio'',
             PFloat (real (fraud_keyword_count text) / real (max word_count 1))),
          (''detected_fraud_keywords'', PList (map PStr (detected_fraud_keywords text))),
          (''uppercase_ratio'',
             PFloat (real (length (filter is_upper text)) / real (max (length text) 1))),
          (''punctuation_ratio'',
             PFloat (real (length (filter (\<lambda>c. c \<in> set ''!@#$%^&*()'') text))
                     / real (max (length text) 1))),
          (''word_repetition_ratio'',
             PFloat (1 - real (length unique_words) / real (max (length words) 1)))])"

subsection \<open>\<^verbatim>\<open>_analyze_amounts\<close>\<close>

definition extracted_amounts :: "string \<Rightarrow> real list" where
  "extracted_amounts text = amounts_of_matches (rx_findall False currency_pattern text)"

definition amount_anomaly_score :: "string \<Rightarrow> real \<Rightarrow> real" where
  "amount_anomaly_score claim_type requested_amount =
     (let (low, high, avg) =
            (case map_of amount_thresholds claim_type of
               None \<Rightarrow> (100, 50000, 2500)
             | Some t \<Rightarrow> t)
      in if requested_amount < low then 3 / 10
         else if requested_amount > high then 8 / 10
         else (let range_position = (requested_amount - low) / (high - low)
               in min (2 / 10) \<bar>range_position - 5 / 10\<bar>))"

definition analyze_amounts :: "string \<Rightarrow> string \<Rightarrow> real \<Rightarrow> pydict" where
  "analyze_amounts text claim_type requested_amount =
     (let amounts = extracted_amounts text;
          features = [(''extracted_amounts'', PList (map PFloat amounts)),
                      (''amount_count'', PInt (int (length amounts)))];
          features =
            (if amounts \<noteq> []
             then (let max_amount = list_max amounts;
                       round_amounts = filter (\<lambda>amt. py_mod amt 100 = 0 \<and> amt > 100) amounts
                   in features @
                      [(''max_extracted_amount'', PFloat max_amount),
                       (''amount_consistency'',
                          PFloat (\<bar>max_amount - requested_amount\<bar> / max requested_amount 1)),
                       (''round_amount_ratio'',
                          PFloat (real (length round_amounts) / real (max (length amounts) 1)))])
             else features @
                  [(''max_extracted_amount'', PInt 0),
                   (''amount_consistency'', PFloat 1),
                   (''round_amount_ratio'', PInt 0)])
      in features @
         [(''amount_anomaly_score'', PFloat (amount_anomaly_score claim_type requested_amount))])"

subsection \<open>\<^verbatim>\<open>_check_suspicious_patterns\<close>\<close>

definition suspicious_indicators_of :: "string \<Rightarrow> string list" where
  "suspicious_indicators_of text =
     (let round_matches = rx_findall False round_numbers_pattern text;
          suspicious_indicators =
            (if round_matches \<noteq> [] then [''Round number amounts: '' @ repr_list round_matches]
             else []);
          suspicious_indicators = suspicious_indicators @
            map (\<lambda>pattern. ''Missing information indicator: '' @ pattern)
              (filter (\<lambda>pattern. rx_found True (word pattern) text) missing_info_patterns);
          amounts = rx_findall False duplicate_amounts_pattern text;
          suspicious_indicators = suspicious_indicators @
            (if length amounts \<noteq> length (remdups amounts) \<and> length amounts > 1
             then [''Duplicate amounts detected''] else []);
          dates = rx_findall False slash_date_pattern text;
          suspicious_indicators = suspicious_indicators @
            (if length dates > 1
             then (case parse_dates dates of
                     Inl e \<Rightarrow> [''Invalid date format detected'']
                   | Inr parsed_dates \<Rightarrow>
                       if parsed_dates \<noteq> []
                          \<and> nat_max parsed_dates - nat_min parsed_dates > 365
                       then [''Inconsistent dates detected''] else [])
             else [])
      in suspicious_indicators)"

definition missing_info_count :: "string \<Rightarrow> nat" where
  "missing_info_count text =
     length (filter (\<lambda>pattern. rx_found True (word pattern) text) missing_info_patterns)"

definition check_suspicious_patterns :: "string \<Rightarrow> pydict" where
  "check_suspicious_patterns text =
     [(''missing_info_count'', PInt (int (missing_info_count text))),
      (''suspicious_indicators'', PList (map PStr (suspicious_indicators_of text))),
      (''suspicious_pattern_count'', PInt (int (length (suspicious_indicators_of text))))]"

subsection \<open>\<^verbatim>\<open>_analyze_consistency\<close>\<close>

definition check_health_consistency :: "string \<Rightarrow> string list" where
  "check_health_consistency text =
     (let text_lower = lower text
      in (if str_in ''surgery'' text_lower \<and> str_in ''outpatient'' text_lower
             \<and> \<not> str_in ''minor'' text_lower \<and> \<not> str_in ''same day'' text_lower
          then [''Surgery and outpatient treatment may be inconsistent''] else [])
         @ (if str_in ''emergency'' text_lower \<and> str_in ''routine'' text_lower
            then [''Emergency and routine treatment mentioned together''] else [])
         @ (if str_in ''chronic'' text_lower \<and> str_in ''sudden'' text_lower
            then [''Chronic and sudden condition mentioned together''] else []))"

definition check_vehicle_consistency :: "string \<Rightarrow> string list" where
  "check_vehicle_consistency text =
     (let text_lower = lower text
      in (if str_in ''minor damage'' text_lower
             \<and> list_ex (\<lambda>w. str_in w text_lower) [''total loss'', ''severe'', ''major'']
          then [''Minor damage inconsistent with severity indicators''] else [])
         @ (if str_in ''low speed'' text_lower \<and> str_in ''extensive damage'' text_lower
            then [''Low speed inconsistent with extensive damage''] else [])
         @ (if str_in ''parking lot'' text_lower \<and> str_in ''high speed'' text_lower
            then [''High speed in parking lot seems inconsistent''] else []))"

definition contradictions :: "(string list \<times> string list) list" where
  "contradictions =
     [([''new'', ''brand new''], [''old'', ''used'', ''worn'']),
      ([''expensive'', ''costly''], [''cheap'', ''inexpensive'']),
      ([''working'', ''functional''], [''broken'', ''damaged''])]"

definition check_general_consistency :: "string \<Rightarrow> string list" where
  "check_general_consistency text =
     (let text_lower = lower text
      in map (\<lambda>(positive_terms, negative_terms).
                ''Contradictory terms detected: '' @ repr_list positive_terms @ '' vs ''
                  @ repr_list negative_terms)
           (filter (\<lambda>(positive_terms, negative_terms).
                      list_ex (\<lambda>term. str_in term text_lower) positive_terms
                      \<and> list_ex (\<lambda>term. str_in term text_lower) negative_terms)
              contradictions))"

definition consistency_issues :: "string \<Rightarrow> string \<Rightarrow> string list" where
  "consistency_issues text claim_type =
     (if claim_type = ''health'' then check_health_consistency text
      else if claim_type = ''vehicle'' then check_vehicle_consistency text
      else if claim_type \<in> set [''travel'', ''product_warranty'', ''pet'', ''agricultural'']
      then check_general_consistency text
      else [])"

definition analyze_consistency :: "string \<Rightarrow> string \<Rightarrow> pydict" where
  "analyze_consistency text claim_type =
     [(''consistency_issues'', PList (map PStr (consistency_issues text claim_type))),
      (''consistency_score'',
         PFloat (max 0 (1 - real (length (consistency_issues text claim_type)) * (2 / 10))))]"

subsection \<open>\<^verbatim>\<open>_calculate_fraud_score\<close>\<close>

definition weights :: "(string \<times> real) list" where
  "weights =
     [(''fraud_keyword_ratio'', 25 / 100),
      (''amount_anomaly_score'', 20 / 100),
      (''suspicious_pattern_count'', 15 / 100),
      (''consistency_score'', 15 / 100),
      (''amount_consistency'', 10 / 100),
      (''round_amount_ratio'', 10 / 100),
      (''missing_info_count'', 5 / 100)]"

definition normalized_value :: "string \<Rightarrow> real \<Rightarrow> real" where
  "normalized_value feature_name v =
     (if feature_name = ''consistency_score'' then 1 - v
      else if feature_name \<in> set [''fraud_keyword_ratio'', ''round_amount_ratio'']
      then min 1 (v * 5)
      else if feature_name \<in> set [''suspicious_pattern_count'', ''missing_info_count'']
      then min 1 (v * (2 / 10))
      else if feature_name = ''amount_consistency'' then min 1 v
      else min 1 (max 0 v))"

text \<open>The loop over \<^verbatim>\<open>weights.items()\<close>: a feature that is absent from \<^verbatim>\<open>features\<close>
  contributes neither to the sum nor to \<^verbatim>\<open>weight_sum\<close>.\<close>

fun weighted_sum :: "(string \<times> real) list \<Rightarrow> pydict \<Rightarrow> real \<times> real \<Rightarrow> error + real \<times> real" where
  "weighted_sum [] features (fraud_score, weight_sum) = Inr (fraud_score, weight_sum)"
| "weighted_sum ((feature_name, weight) # ws) features (fraud_score, weight_sum) =
     (case map_of features feature_name of
        None \<Rightarrow> weighted_sum ws features (fraud_score, weight_sum)
      | Some val \<Rightarrow>
          and_then (num_of val) (\<lambda>v.
            weighted_sum ws features
              (fraud_score + weight * normalized_value feature_name v, weight_sum + weight)))"

definition calculate_fraud_score_body :: "pydict \<Rightarrow> error + real" where
  "calculate_fraud_score_body features =
     and_then (weighted_sum weights features (0, 0)) (\<lambda>(fraud_score, weight_sum).
       let fraud_score = (if weight_sum > 0 then fraud_score / weight_sum else fraud_score)
       in Inr (min 1 (max 0 fraud_score)))"

definition calculate_fraud_score :: "pydict \<Rightarrow> real" where
  "calculate_fraud_score features =
     (case calculate_fraud_score_body features of Inl e \<Rightarrow> 1 / 2 | Inr s \<Rightarrow> s)"

subsection \<open>\<^verbatim>\<open>_generate_fraud_report\<close>\<close>

text \<open>\<^verbatim>\<open>features.get(key, default)\<close> read as a number for a comparison.\<close>

definition num_get :: "pydict \<Rightarrow> string \<Rightarrow> pyval \<Rightarrow> error + real" where
  "num_get d k dflt = num_of (dict_get d k dflt)"

definition calculate_confidence :: "pydict \<Rightarrow> real \<Rightarrow> error + real" where
  "calculate_confidence features fraud_score =
     and_then (num_get features ''text_length'' (PInt 0)) (\<lambda>text_length.
     and_then (num_get features ''amount_count'' (PInt 0)) (\<lambda>amount_count.
       let confidence_factors =
             [if text_length > 100 then 8 / 10 else if text_length > 50 then 6 / 10 else 3 / 10,
              if amount_count > 0 then 9 / 10 else 4 / 10,
              if fraud_score > 7 / 10 \<or> fraud_score < 3 / 10 then 8 / 10 else 5 / 10]
       in Inr (sum_list confidence_factors / real (length confidence_factors))))"

definition get_recommendation :: "real \<Rightarrow> real \<Rightarrow> string" where
  "get_recommendation fraud_score confidence =
     (if fraud_score > 7 / 10 \<and> confidence > 6 / 10 then ''high_risk_reject''
      else if fraud_score > 5 / 10 then ''manual_review_required''
      else if fraud_score < 3 / 10 \<and> confidence > 7 / 10 then ''low_risk_approve''
      else ''standard_review'')"

definition generate_fraud_report :: "pydict \<Rightarrow> real \<Rightarrow> string \<Rightarrow> error + pydict" where
  "generate_fraud_report features fraud_score claim_type =
     (let issues = []; risk_factors = []
      in
      and_then (num_get features ''fraud_keyword_count'' (PInt 0)) (\<lambda>keyword_count.
      let (issues, risk_factors) =
            (if keyword_count > 0
             then (issues @ [PStr (''Suspicious keywords detected: '' @
                       join '', '' (str_items (dict_get features ''detected_fraud_keywords''
                                                 (PList []))))],
                   risk_factors @ [PStr ''suspicious_language''])
             else (issues, risk_factors))
      in
      and_then (num_get features ''amount_anomaly_score'' (PInt 0)) (\<lambda>anomaly.
      let (issues, risk_factors) =
            (if anomaly > 5 / 10
             then (issues @ [PStr ''Claimed amount appears unusual for this type of claim''],
                   risk_factors @ [PStr ''unusual_amount''])
             else (issues, risk_factors))
      in
      and_then (num_get features ''amount_consistency'' (PInt 0)) (\<lambda>consistency.
      let (issues, risk_factors) =
            (if consistency > 3 / 10
             then (issues @ [PStr ''Inconsistency between claimed amount and extracted amounts''],
                   risk_factors @ [PStr ''amount_inconsistency''])
             else (issues, risk_factors))
      in
      and_then (num_get features ''suspicious_pattern_count'' (PInt 0)) (\<lambda>pattern_count.
      and_then (if pattern_count > 0
                then and_then (items_of (dict_get features ''suspicious_indicators'' (PList [])))
                       (\<lambda>pattern_issues.
                          Inr (issues @ pattern_issues,
                               risk_factors @ [PStr ''suspicious_patterns'']))
                else Inr (issues, risk_factors)) (\<lambda>(issues, risk_factors).
      and_then (num_get features ''consistency_score'' (PFloat 1)) (\<lambda>consistency_score.
      and_then (if consistency_score < 7 / 10
                then and_then (items_of (dict_get features ''consistency_issues'' (PList [])))
                       (\<lambda>more.
                          Inr (issues @ more, risk_factors @ [PStr ''internal_inconsistency'']))
                else Inr (issues, risk_factors)) (\<lambda>(issues, risk_factors).
      and_then (calculate_confidence features fraud_score) (\<lambda>confidence.
        Inr [(''fraud_score'', PFloat fraud_score),
             (''confidence'', PFloat confidence),
             (''risk_factors'', PList risk_factors),
             (''issues'', PList issues),
             (''recommendation'', PStr (get_recommendation fraud_score confidence)),
             (''feature_analysis'', PDict features),
             (''claim_type'', PStr claim_type)])))))))))"

subsection \<open>\<^verbatim>\<open>analyze_text\<close>\<close>

text \<open>
  The \<^verbatim>\<open>try\<close> block: the four feature dictionaries are combined with
  \<^verbatim>\<open>{**text_features, **amount_features, **pattern_features, **consistency_features}\<close>,
  scored and reported.
\<close>

definition combined_features :: "string \<Rightarrow> string \<Rightarrow> real \<Rightarrow> pydict" where
  "combined_features text claim_type requested_amount =
     dict_update (dict_update (dict_update (dict_update [] (extract_text_features text))
       (analyze_amounts text claim_type requested_amount))
       (check_suspicious_patterns text))
       (analyze_consistency text claim_type)"

definition analyze_text_body :: "pyval \<Rightarrow> string \<Rightarrow> real \<Rightarrow> error + pydict" where
  "analyze_text_body text claim_type requested_amount =
     and_then (text_arg ''split'' text) (\<lambda>text.
       let features = combined_features text claim_type requested_amount;
           fraud_score = calculate_fraud_score features
       in generate_fraud_report features fraud_score claim_type)"

definition analyze_text :: "pyval \<Rightarrow> string \<Rightarrow> real \<Rightarrow> error + pydict" where
  "analyze_text text claim_type requested_amount =
     (case analyze_text_body text claim_type requested_amount of
        Inl e \<Rightarrow> Inr [(''fraud_score'', PFloat (1 / 2)),
                       (''issues'', PList [PStr (''Analysis error: '' @ error_str e)]),
                       (''confidence'', PFloat 0)]
      | Inr report \<Rightarrow> Inr report)"

subsection \<open>What a run of the engine computes\<close>

text \<open>
  Abbreviations for stating results: the two amount features that
  \<^verbatim>\<open>_analyze_amounts\<close> sets in both branches of \<^verbatim>\<open>if amounts:\<close>, and the weighted sum of
  \<^verbatim>\<open>_calculate_fraud_score\<close> written out for the seven features, all of which are
  present in the combined dictionary (so \<^verbatim>\<open>weight_sum\<close> is 1). That the code computes
  exactly this is lemma \<open>calculate_fraud_score_combined\<close>.
\<close>

definition amount_consistency_of :: "string \<Rightarrow> real \<Rightarrow> real" where
  "amount_consistency_of text requested_amount =
     (if extracted_amounts text \<noteq> []
      then \<bar>list_max (extracted_amounts text) - requested_amount\<bar> / max requested_amount 1
      else 1)"

definition round_amount_ratio_of :: "string \<Rightarrow> real" where
  "round_amount_ratio_of text =
     (if extracted_amounts text \<noteq> []
      then real (length (filter (\<lambda>amt. py_mod amt 100 = 0 \<and> amt > 100) (extracted_amounts text)))
           / real (max (length (extracted_amounts text)) 1)
      else 0)"

definition fraud_keyword_ratio :: "string \<Rightarrow> real" where
  "fraud_keyword_ratio text = real (fraud_keyword_count text) / real (max (word_count_of text) 1)"

definition consistency_score_of :: "string \<Rightarrow> string \<Rightarrow> real" where
  "consistency_score_of text claim_type =
     max 0 (1 - real (length (consistency_issues text claim_type)) * (2 / 10))"

definition fraud_score_of :: "string \<Rightarrow> string \<Rightarrow> real \<Rightarrow> real" where
  "fraud_score_of text claim_type requested_amount =
     min 1 (max 0
       (25 / 100 * min 1 (fraud_keyword_ratio text * 5)
        + 20 / 100 * min 1 (max 0 (amount_anomaly_score claim_type requested_amount))
        + 15 / 100 * min 1 (real (length (suspicious_indicators_of text)) * (2 / 10))
        + 15 / 100 * (1 - consistency_score_of text claim_type)
        + 10 / 100 * min 1 (amount_consistency_of text requested_amount)
        + 10 / 100 * min 1 (round_amount_ratio_of text * 5)
        + 5 / 100 * min 1 (real (missing_info_count text) * (2 / 10))))"

text \<open>The report of \<^verbatim>\<open>_generate_fraud_report\<close>, field by field, for the combined features of
  a text: confidence, risk factors and issues.\<close>

definition confidence_of :: "string \<Rightarrow> real \<Rightarrow> real" where
  "confidence_of text fraud_score =
     ((if length text > 100 then 8 / 10 else if length text > 50 then 6 / 10 else 3 / 10)
      + (if extracted_amounts text \<noteq> [] then 9 / 10 else 4 / 10)
      + (if fraud_score > 7 / 10 \<or> fraud_score < 3 / 10 then 8 / 10 else 5 / 10)) / 3"

definition risk_factors_of :: "string \<Rightarrow> string \<Rightarrow> real \<Rightarrow> string list" where
  "risk_factors_of text claim_type requested_amount =
     (if fraud_keyword_count text > 0 then [''suspicious_language''] else [])
     @ (if amount_anomaly_score claim_type requested_amount > 5 / 10 then [''unusual_amount'']
        else [])
     @ (if amount_consistency_of text requested_amount > 3 / 10 then [''amount_inconsistency'']
        else [])
     @ (if suspicious_indicators_of text \<noteq> [] then [''suspicious_patterns''] else [])
     @ (if consistency_score_of text claim_type < 7 / 10 then [''internal_inconsistency'']
        else [])"

definition report_issues_of :: "string \<Rightarrow> string \<Rightarrow> real \<Rightarrow> string list" where
  "report_issues_of text claim_type requested_amount =
     (if fraud_keyword_count text > 0
      then [''Suspicious keywords detected: '' @ join '', '' (detected_fraud_keywords text)]
      else [])
     @ (if amount_anomaly_score claim_type requested_amount > 5 / 10
        then [''Claimed amount appears unusual for this type of claim''] else [])
     @ (if amount_consistency_of text requested_amount > 3 / 10
        then [''Inconsistency between claimed amount and extracted amounts''] else [])
     @ suspicious_indicators_of text
     @ (if consistency_score_of text claim_type < 7 / 10
        then consistency_issues text claim_type else [])"

text \<open>The narrative of the scenario that the specification gives for the engine.\<close>

definition narrative :: string where
  "narrative = ''Emergency surgery needed ASAP, cash only, no receipt''"

text \<open>Two claim texts, the second extending the first by one more fraud keyword.\<close>

definition glasses_claim :: string where
  "glasses_claim = ''please pay for my new glasses, it is urgent''"

definition glasses_claim_asap :: string where
  "glasses_claim_asap = ''please pay for my new glasses, it is urgent asap''"

text \<open>The first text again, extended by ten occurrences of the additional keyword
  \<^verbatim>\<open>asap\<close> and by nothing else.\<close>

definition glasses_claim_ten_asap :: string where
  "glasses_claim_ten_asap =
     glasses_claim @ '' asap asap asap asap asap asap asap asap asap asap''"

section \<open>Image Forensic Analyzer (\<^verbatim>\<open>image_analysis_service.py\<close>)\<close>

text \<open>
  The analyzer calls PIL, OpenCV and numpy on the decoded image and then does its own
  arithmetic, threshold tests and dictionary plumbing. What the libraries return for a
  given image (or that they raise) is a field of the record below; everything the
  repository's own code does with these values is modelled in full.
\<close>

record image =
  decode_error :: "error option"
    \<comment> \<open>\<^verbatim>\<open>Image.open\<close> / \<^verbatim>\<open>cv2.cvtColor\<close> in \<^verbatim>\<open>analyze_image\<close> raising\<close>
  gray_shape :: "nat \<times> nat"
    \<comment> \<open>\<^verbatim>\<open>gray.shape\<close>: height and width\<close>
  dct_variance :: "error + real"
    \<comment> \<open>\<^verbatim>\<open>np.var(cv2.dct(np.float32(gray)))\<close>\<close>
  block_var :: "nat \<Rightarrow> nat \<Rightarrow> real"
    \<comment> \<open>\<^verbatim>\<open>np.var(gray[i:i+8, j:j+8])\<close>\<close>
  noise_stats :: "error + (real \<times> real \<times> real)"
    \<comment> \<open>\<^verbatim>\<open>np.std(noise)\<close>, \<^verbatim>\<open>np.max(top_magnitudes)\<close>, \<^verbatim>\<open>np.mean(top_magnitudes)\<close>\<close>
  color_deviations :: "error + real list list"
    \<comment> \<open>per region of the 4x4 grid, the six values of \<^verbatim>\<open>deviations\<close>\<close>
  contour_angles :: "error + real list list"
    \<comment> \<open>per contour, \<^verbatim>\<open>angle\<close> at each of its points (index 0 first)\<close>
  exif :: "error + (nat \<times> string) list option"
    \<comment> \<open>\<^verbatim>\<open>image._getexif()\<close>: tag to value, or \<^verbatim>\<open>None\<close>\<close>
  quality_stats :: "error + (nat \<times> nat \<times> real \<times> real \<times> real)"
    \<comment> \<open>width, height, \<^verbatim>\<open>blur_score\<close>, \<^verbatim>\<open>brightness\<close>, \<^verbatim>\<open>contrast\<close>\<close>
  basic_analysis :: pydict
    \<comment> \<open>result of \<^verbatim>\<open>_basic_image_analysis\<close>, which catches its own exceptions\<close>
  content_analysis :: "string \<Rightarrow> pydict"
    \<comment> \<open>result of \<^verbatim>\<open>_analyze_content\<close>, which catches its own exceptions\<close>
  damage_analysis :: "string \<Rightarrow> pydict"
    \<comment> \<open>result of \<^verbatim>\<open>_assess_damage\<close>, which catches its own exceptions\<close>

text \<open>\<^verbatim>\<open>self.tampering_thresholds\<close>.\<close>

definition tampering_thresholds :: "string \<Rightarrow> real" where
  "tampering_thresholds k =
     (if k = ''compression_artifacts'' then 7 / 10
      else if k = ''noise_patterns'' then 6 / 10
      else if k = ''color_inconsistency'' then 5 / 10
      else 8 / 10)"

text \<open>\<^verbatim>\<open>range(0, stop, 8)\<close>; empty when \<^verbatim>\<open>stop\<close> is not positive.\<close>

definition range8 :: "int \<Rightarrow> nat list" where
  "range8 stop = map (\<lambda>k. 8 * k) [0 ..< nat ((stop + 7) div 8)]"

text \<open>
  The \<^verbatim>\<open>try\<close> block of \<^verbatim>\<open>_check_compression_artifacts\<close>. \<^verbatim>\<open>block_variance\<close> starts
  as the integer 0 and is divided by \<^verbatim>\<open>(h//8) * (w//8)\<close>; when that is 0 both loops are
  empty and the division is of two integers, which raises.
\<close>

definition compression_artifacts_body :: "image \<Rightarrow> error + real" where
  "compression_artifacts_body img =
     and_then (dct_variance img) (\<lambda>freq_variance.
       let (h, w) = gray_shape img;
           block_variance = sum_list (concat (map (\<lambda>i. map (\<lambda>j. block_var img i j)
                              (range8 (int w - 8))) (range8 (int h - 8))))
       in if (h div 8) * (w div 8) = 0 then Inl (ZeroDivisionError ''division by zero'')
          else let block_variance = block_variance / real ((h div 8) * (w div 8));
                   artifact_score = min 1 ((freq_variance / 1000 + block_variance / 100) / 2)
               in Inr artifact_score)"

definition check_compression_artifacts :: "image \<Rightarrow> error + real" where
  "check_compression_artifacts img =
     (case compression_artifacts_body img of Inl e \<Rightarrow> Inr 0 | Inr s \<Rightarrow> Inr s)"

definition noise_patterns_body :: "image \<Rightarrow> error + real" where
  "noise_patterns_body img =
     and_then (noise_stats img) (\<lambda>(noise_std, max_top, mean_top).
       let magnitude_ratio = (if mean_top > 0 then max_top / mean_top else 0);
           noise_score = min 1 ((noise_std / 50 + magnitude_ratio / 100) / 2)
       in Inr noise_score)"

definition check_noise_patterns :: "image \<Rightarrow> error + real" where
  "check_noise_patterns img =
     (case noise_patterns_body img of Inl e \<Rightarrow> Inr 0 | Inr s \<Rightarrow> Inr s)"

text \<open>
  \<^verbatim>\<open>consistency_score = outlier_count / len(regions)\<close>: the grid always has 16 regions.
\<close>

definition color_consistency_body :: "image \<Rightarrow> error + real" where
  "color_consistency_body img =
     and_then (color_deviations img) (\<lambda>deviations.
       let outlier_count = length (filter (\<lambda>row. list_ex (\<lambda>d. d > 2) row) deviations);
           consistency_score = real outlier_count / 16
       in Inr consistency_score)"

definition check_color_consistency :: "image \<Rightarrow> error + real" where
  "check_color_consistency img =
     (case color_consistency_body img of Inl e \<Rightarrow> Inr 0 | Inr s \<Rightarrow> Inr s)"

text \<open>
  A contour counts when it has more than 10 points; it is discontinuous when some point
  \<^verbatim>\<open>i\<close> in \<^verbatim>\<open>range(2, len(points) - 2)\<close> turns by more than 60 degrees.
\<close>

definition sharp_turn :: "real list \<Rightarrow> bool" where
  "sharp_turn angles =
     list_ex (\<lambda>i. angles ! i > pi / 3) [2 ..< length angles - 2]"

definition edge_discontinuities_body :: "image \<Rightarrow> error + real" where
  "edge_discontinuities_body img =
     and_then (contour_angles img) (\<lambda>contours.
       let significant = filter (\<lambda>contour. length contour > 10) contours;
           total_edges = length significant;
           discontinuity_count = length (filter sharp_turn significant);
           discontinuity_score = real discontinuity_count / real (max total_edges 1)
       in Inr discontinuity_score)"

definition check_edge_discontinuities :: "image \<Rightarrow> error + real" where
  "check_edge_discontinuities img =
     (case edge_discontinuities_body img of Inl e \<Rightarrow> Inr 0 | Inr s \<Rightarrow> Inr s)"

text \<open>\<^verbatim>\<open>_analyze_exif_data\<close>.\<close>

definition editors :: "string list" where
  "editors = [''photoshop'', ''gimp'', ''paint'', ''editor'']"

fun software_issues :: "(nat \<times> string) list \<Rightarrow> nat list \<Rightarrow> string list" where
  "software_issues exif_data [] = []"
| "software_issues exif_data (tag # tags) =
     (case map_of exif_data tag of
        None \<Rightarrow> software_issues exif_data tags
      | Some v \<Rightarrow>
          (let software = lower v
           in if list_ex (\<lambda>editor. str_in editor software) editors
              then (''Image editing software detected: '' @ software)
                     # software_issues exif_data tags
              else software_issues exif_data tags))"

definition exif_dates :: "(nat \<times> string) list \<Rightarrow> string list" where
  "exif_dates exif_data =
     concat (map (\<lambda>tag. case map_of exif_data tag of None \<Rightarrow> [] | Some v \<Rightarrow> [v])
               [306, 36867, 36868])"

definition analyze_exif_data_body :: "image \<Rightarrow> error + pydict" where
  "analyze_exif_data_body img =
     and_then (exif img) (\<lambda>exif_data.
       let issues =
             (case exif_data of
                None \<Rightarrow> [''No EXIF data found'']
              | Some d \<Rightarrow>
                  software_issues d [272, 305] @
                  (let date_values = exif_dates d
                   in if length date_values > 1
                         \<and> \<not> list_all (\<lambda>v. v = hd date_values) date_values
                      then [''Inconsistent date/time stamps in EXIF''] else []));
           suspicious = (issues \<noteq> [])
       in Inr [(''suspicious'', PBool suspicious),
               (''issues'', PList (map PStr issues)),
               (''has_exif'', PBool (exif_data \<noteq> None)),
               (''exif_tags_count'',
                  PInt (case exif_data of None \<Rightarrow> 0 | Some d \<Rightarrow> int (length d)))])"

definition analyze_exif_data :: "image \<Rightarrow> error + pydict" where
  "analyze_exif_data img =
     (case analyze_exif_data_body img of
        Inl e \<Rightarrow> Inr [(''suspicious'', PBool False), (''issues'', PList []),
                       (''error'', PStr (error_str e))]
      | Inr r \<Rightarrow> Inr r)"

text \<open>
  \<^verbatim>\<open>_analyze_authenticity\<close>: a score starting at 1.0 loses a fixed amount for every
  sub-detector above its threshold and for suspicious EXIF data, and is clamped.
\<close>

definition analyze_authenticity_body :: "image \<Rightarrow> error + pydict" where
  "analyze_authenticity_body img =
     (let authenticity_indicators = []; authenticity_score = 1
      in
      and_then (check_compression_artifacts img) (\<lambda>compression_score.
      let (authenticity_indicators, authenticity_score) =
            (if compression_score > tampering_thresholds ''compression_artifacts''
             then (authenticity_indicators @ [PStr ''Suspicious compression artifacts detected''],
                   authenticity_score - 2 / 10)
             else (authenticity_indicators, authenticity_score))
      in
      and_then (check_noise_patterns img) (\<lambda>noise_score.
      let (authenticity_indicators, authenticity_score) =
            (if noise_score > tampering_thresholds ''noise_patterns''
             then (authenticity_indicators @ [PStr ''Unusual noise patterns detected''],
                   authenticity_score - 15 / 100)
             else (authenticity_indicators, authenticity_score))
      in
      and_then (check_color_consistency img) (\<lambda>color_score.
      let (authenticity_indicators, authenticity_score) =
            (if color_score > tampering_thresholds ''color_inconsistency''
             then (authenticity_indicators @ [PStr ''Color inconsistencies detected''],
                   authenticity_score - 2 / 10)
             else (authenticity_indicators, authenticity_score))
      in
      and_then (check_edge_discontinuities img) (\<lambda>edge_score.
      let (authenticity_indicators, authenticity_score) =
            (if edge_score > tampering_thresholds ''edge_discontinuity''
             then (authenticity_indicators @ [PStr ''Edge discontinuities suggest editing''],
                   authenticity_score - 25 / 100)
             else (authenticity_indicators, authenticity_score))
      in
      and_then (analyze_exif_data img) (\<lambda>exif_analysis.
      and_then (dict_index exif_analysis ''suspicious'') (\<lambda>suspicious.
      and_then
        (if truthy suspicious
         then and_then (dict_index exif_analysis ''issues'') (\<lambda>issues.
              and_then (items_of issues) (\<lambda>issues.
                Inr (authenticity_indicators @ issues, authenticity_score - 1 / 10)))
         else Inr (authenticity_indicators, authenticity_score))
        (\<lambda>(authenticity_indicators, authenticity_score).
      let authenticity_score = max 0 (min 1 authenticity_score)
      in Inr [(''score'', PFloat authenticity_score),
              (''indicators'', PList authenticity_indicators),
              (''compression_score'', PFloat compression_score),
              (''noise_score'', PFloat noise_score),
              (''color_score'', PFloat color_score),
              (''edge_score'', PFloat edge_score),
              (''exif_analysis'', PDict exif_analysis)]))))))))"

definition analyze_authenticity :: "image \<Rightarrow> error + pydict" where
  "analyze_authenticity img =
     (case analyze_authenticity_body img of
        Inl e \<Rightarrow> Inr [(''score'', PFloat (1 / 2)), (''error'', PStr (error_str e))]
      | Inr r \<Rightarrow> Inr r)"

text \<open>
  \<^verbatim>\<open>_assess_quality\<close>: the dictionary it returns has the keys \<^verbatim>\<open>resolution\<close>,
  \<^verbatim>\<open>sharpness\<close>, \<^verbatim>\<open>exposure\<close> and \<^verbatim>\<open>overall_score\<close>; on an exception it has
  \<^verbatim>\<open>overall_score\<close> and \<^verbatim>\<open>error\<close>.
\<close>

definition assess_quality_body :: "image \<Rightarrow> error + pydict" where
  "assess_quality_body img =
     and_then (quality_stats img) (\<lambda>(width, height, blur_score, brightness, contrast).
       let total_pixels = width * height;
           resolution =
             [(''width'', PInt (int width)), (''height'', PInt (int height)),
              (''total_pixels'', PInt (int total_pixels)),
              (''quality'', PStr (if total_pixels > 1000000 then ''high''
                                  else if total_pixels > 300000 then ''medium'' else ''low''))];
           sharpness =
             [(''score'', PFloat blur_score),
              (''quality'', PStr (if blur_score > 100 then ''sharp''
                                  else if blur_score > 50 then ''acceptable'' else ''blurred''))];
           good_exposure = (50 < brightness \<and> brightness < 200 \<and> contrast > 20);
           exposure =
             [(''brightness'', PFloat brightness), (''contrast'', PFloat contrast),
              (''quality'', PStr (if good_exposure then ''good'' else ''poor''))];
           resolution_score = min 1 (real total_pixels / 1000000);
           sharpness_score = min 1 (blur_score / 200);
           exposure_score = (if good_exposure then 1 else 1 / 2);
           overall_score = (resolution_score + sharpness_score + exposure_score) / 3
       in Inr [(''resolution'', PDict resolution), (''sharpness'', PDict sharpness),
               (''exposure'', PDict exposure), (''overall_score'', PFloat overall_score)])"

definition assess_quality :: "image \<Rightarrow> error + pydict" where
  "assess_quality img =
     (case assess_quality_body img of
        Inl e \<Rightarrow> Inr [(''overall_score'', PFloat (1 / 2)), (''error'', PStr (error_str e))]
      | Inr r \<Rightarrow> Inr r)"

text \<open>
  \<^verbatim>\<open>analyze_image\<close>. \<^verbatim>\<open>start_time\<close> and \<^verbatim>\<open>end_time\<close> are what the two calls of
  \<^verbatim>\<open>time.time()\<close> return. The result dictionary is built key by key, in the order of
  the source, so the first failing subscript decides the exception.
\<close>

definition analyze_image_body ::
    "image \<Rightarrow> string \<Rightarrow> string \<Rightarrow> real \<Rightarrow> real \<Rightarrow> error + pydict" where
  "analyze_image_body img filename analysis_type start_time end_time =
     (case decode_error img of
        Some e \<Rightarrow> Inl e
      | None \<Rightarrow>
          let basic = basic_analysis img
          in
          and_then (analyze_authenticity img) (\<lambda>authenticity_analysis.
          let content = content_analysis img analysis_type;
              damage = (if analysis_type \<in> set [''vehicle'', ''health'', ''property'']
                        then PDict (damage_analysis img analysis_type) else PNone)
          in
          and_then (assess_quality img) (\<lambda>quality_analysis.
          let processing_time = end_time - start_time
          in
          and_then (dict_index authenticity_analysis ''score'') (\<lambda>authenticity_score.
          and_then (dict_index quality_analysis ''score'') (\<lambda>quality_score.
          let result =
                [(''filename'', PStr filename),
                 (''analysis_type'', PStr analysis_type),
                 (''authenticity_score'', authenticity_score),
                 (''quality_score'', quality_score),
                 (''processing_time'', PFloat processing_time),
                 (''basic_info'', PDict basic),
                 (''authenticity_details'', PDict authenticity_analysis),
                 (''content_analysis'', PDict content),
                 (''quality_details'', PDict quality_analysis)]
          in Inr (case damage of
                    PDict d \<Rightarrow>
                      if d \<noteq> []
                      then dict_set (dict_set result ''damage_assessment'' (PDict d))
                             ''estimated_cost'' (dict_get d ''estimated_cost'' (PInt 0))
                      else result
                  | _ \<Rightarrow> result))))))"

definition analyze_image ::
    "image \<Rightarrow> string \<Rightarrow> string \<Rightarrow> real \<Rightarrow> real \<Rightarrow> error + pydict" where
  "analyze_image img filename analysis_type start_time end_time =
     (case analyze_image_body img filename analysis_type start_time end_time of
        Inl e \<Rightarrow> Inr [(''filename'', PStr filename),
                       (''error'', PStr (error_str e)),
                       (''authenticity_score'', PFloat (1 / 2)),
                       (''quality_score'', PFloat (1 / 2)),
                       (''processing_time'', PFloat (end_time - start_time))]
      | Inr r \<Rightarrow> Inr r)"

text \<open>
  Two concrete images. \<open>uniform_image\<close> is a 64x64 image of one colour (black) with
  consistent capture metadata: every statistic the sub-detectors read is 0, no contour
  is found, and the two EXIF time stamps agree. \<open>tiny_image\<close> is the same picture at
  4x4 pixels.
\<close>

definition uniform_image :: image where
  "uniform_image =
     \<lparr> decode_error = None,
       gray_shape = (64, 64),
       dct_variance = Inr 0,
       block_var = (\<lambda>i j. 0),
       noise_stats = Inr (0, 0, 0),
       color_deviations = Inr (replicate 16 (replicate 6 0)),
       contour_angles = Inr [],
       exif = Inr (Some [(271, ''Canon''), (306, ''2024:01:01 10:00:00''),
                         (36867, ''2024:01:01 10:00:00'')]),
       quality_stats = Inr (64, 64, 0, 0, 0),
       basic_analysis = [(''channels'', PInt 3), (''mode'', PStr ''RGB'')],
       content_analysis = (\<lambda>t. [(''detected_objects'', PList []), (''detected_text'', PList [])]),
       damage_analysis = (\<lambda>t. [(''estimated_cost'', PFloat 350)]) \<rparr>"

definition tiny_image :: image where
  "tiny_image = uniform_image \<lparr> gray_shape := (4, 4), quality_stats := Inr (4, 4, 0, 0, 0) \<rparr>"

text \<open>\<open>unreadable_image\<close> is an image on which every OpenCV call of the four
  sub-detectors raises.\<close>

definition unreadable_image :: image where
  "unreadable_image =
     uniform_image \<lparr> dct_variance := Inl (LibraryError ''cv2.error''),
                     noise_stats := Inl (LibraryError ''cv2.error''),
                     color_deviations := Inl (LibraryError ''cv2.error''),
                     contour_angles := Inl (LibraryError ''cv2.error'') \<rparr>"

section \<open>Verification\<close>

subsection \<open>Evaluation rules\<close>

text \<open>The rewrite rules with which the simplifier runs the string functions and the
  regular-expression matcher on concrete texts.\<close>

lemma rep_numeral: "rep (numeral k) r = Seq r (rep (pred_numeral k) r)"
  by (simp add: numeral_eq_Suc)

lemma rep_one: "rep 1 r = Seq r Eps"
  by (simp add: One_nat_def del: One_nat_def[symmetric])

lemma rep_upto_numeral: "rep_upto (numeral k) r = Alt (Seq r (rep_upto (pred_numeral k) r)) Eps"
  by (simp add: numeral_eq_Suc)

lemma rep_upto_one: "rep_upto 1 r = Alt (Seq r Eps) Eps"
  by (simp add: One_nat_def del: One_nat_def[symmetric])

lemmas char_eval = is_digit_def is_space_def is_upper_def is_alnum_def lower_char_def lower_def
  upper_chars_def lower_chars_def digit_chars_def space_chars_def word_chars_def swap_case_def
  char_in_def is_word_at_def

lemmas rx_eval = rep_numeral rep_one rep_upto_numeral rep_upto_one seqs_def word_def opt_def
  plus_def rep_between_def rep_at_least_def digit_def space_def word_char_def letter_def
  any_char_def rx_search_def rx_found_def rx_findall_def rx_findall_from.simps

lemmas str_eval = split_ws_def split_on_def lstrip_def strip_def str_nat.simps repr_list_def
  quote_def digit_char_def digit_val_def int_of_digits_def py_int_def float_of_def
  list_max_def list_min_def nat_max_def nat_min_def

lemmas pattern_defs = currency_pattern_def dollar_cents_pattern_def slash_date_pattern_def
  dash_date_pattern_def iso_date_pattern_def email_pattern_def phone_pattern_def vin_pattern_def
  icd_pattern_def cpt_pattern_def number_pattern_def repeated_pattern_def
  placeholder_patterns_def labelled_def name_chars_def year_make_model_pattern_def
  description_chars_def invoice_number_pattern_def round_numbers_pattern_def
  duplicate_amounts_pattern_def missing_info_patterns_def

lemmas validator_eval = rules_for_def validation_rules_def general_rules_def
  suspicious_indicators_def repetition_ratio_of_def text_validation_issues_def text_stats_def
  is_reasonable_date_def missing_elements_def validate_medical_bill_structure_def
  validate_vehicle_estimate_structure_def validate_invoice_structure_def
  structure_validation_issues_def extract_amounts_def clean_amount_def extract_dates_def
  has_formatting_inconsistencies_def has_unusual_characters_def has_data_integrity_issues_def
  placeholder_hits_def authenticity_validation_issues_def authenticity_score_of_def
  group_def extract_medical_data_def extract_vehicle_data_def extract_invoice_data_def
  cross_validate_data_def extracted_data_of_def data_validation_issues_def
  dict_has_def dict_get_def merged_issues_def score_of_def

subsection \<open>Document Structural Validator\<close>

text \<open>
  On a string, the \<^verbatim>\<open>try\<close> block of \<^verbatim>\<open>validate_document\<close> never raises, and this is the
  dictionary it returns. The issues of the text check are stored under their own key
  (by \<^verbatim>\<open>dict.update\<close>) and are not part of \<^verbatim>\<open>issues\<close>; \<^verbatim>\<open>authenticity_score\<close> is
  turned into \<^verbatim>\<open>confidence\<close> by the merge and is not a key of the result, so the score
  is computed with the default authenticity 1.0.
\<close>

lemma validate_document_body_str:
  "validate_document_body today content filename document_type (PStr t) =
     Inr [(''is_valid'',
             PBool (score_of (length (merged_issues today document_type t))
                      (authenticity_score_of t) \<ge> 6 / 10)),
          (''validation_score'',
             PFloat (score_of (length (merged_issues today document_type t))
                       (authenticity_score_of t))),
          (''issues'', PList (map PStr (merged_issues today document_type t))),
          (''extracted_data'', PDict (extracted_data_of t document_type)),
          (''confidence'', PFloat ((1 + authenticity_score_of t) / 2)),
          (''text_validation_issues'',
             PList (map PStr (text_validation_issues t (rules_for document_type)))),
          (''text_stats'', PDict (text_stats t)),
          (''data'', PDict (extracted_data_of t document_type))]"
  by (simp add: validate_document_body_def validate_text_content_def
      validate_document_structure_def validate_content_authenticity_def
      extract_and_validate_data_def and_then_def dict_index_def dict_get_def ends_with_def
      calculate_validation_score_def calculate_validation_score_body_def score_of_def
      merged_issues_def Let_def)

lemma validate_document_body_not_str:
  "\<forall>s. extracted_text \<noteq> PStr s \<Longrightarrow>
   \<exists>e. validate_document_body today content filename document_type extracted_text = Inl e"
  by (cases extracted_text) (simp_all add: validate_document_body_def and_then_def)

lemma authenticity_score_of_bounds:
  "0 \<le> authenticity_score_of t \<and> authenticity_score_of t \<le> 1"
  by (simp add: authenticity_score_of_def Let_def)

lemma score_of_bounds: "0 \<le> score_of n a \<and> score_of n a \<le> 1"
  by (simp add: score_of_def)


text \<open>The validator run on three small texts.\<close>

lemma general_hi:
  "merged_issues 739000 ''general'' ''hi'' = []"
  "text_validation_issues ''hi'' (rules_for ''general'') =
     [''Text too short: 2 characters (minimum: 10)'', ''Text has too few words'']"
  "authenticity_score_of ''hi'' = 1"
  by (simp_all add: validator_eval rx_eval char_eval str_eval pattern_defs)


lemma general_xxxx:
  "merged_issues 739000 ''general'' ''xxxx'' = [''Placeholder text detected: xxx+'']"
  "authenticity_score_of ''xxxx'' = 4 / 5"
  by (simp_all add: validator_eval rx_eval char_eval str_eval pattern_defs)



text \<open>
  Claim C3. On the non-error path the \<^verbatim>\<open>issues\<close> of the result should be the issues of
  the text-quality, structural, authenticity and extraction checks, concatenated in this
  order; in particular every issue of the text-quality check should be among them.

  The code merges the last three checks with \<^verbatim>\<open>_merge_validation_results\<close> but the
  text check with \<^verbatim>\<open>validation_result.update(text_validation)\<close>, which only adds the
  keys \<^verbatim>\<open>text_validation_issues\<close> and \<^verbatim>\<open>text_stats\<close>. The theorem runs the code on the
  text \<^verbatim>\<open>hi\<close> of type \<^verbatim>\<open>general\<close>: the text check reports two issues and the result
  has none.
\<close>

theorem text_issues_missing_from_issues:
  "text_validation_issues ''hi'' (rules_for ''general'') =
     [''Text too short: 2 characters (minimum: 10)'', ''Text has too few words'']
   \<and> result_field (validate_document 739000 [104, 105] ''note.txt'' ''general'' (PStr ''hi''))
         ''issues'' = Some (PList [])
   \<and> result_field (validate_document 739000 [104, 105] ''note.txt'' ''general'' (PStr ''hi''))
         ''is_valid'' = Some (PBool True)"
  by (simp add: validate_document_def validate_document_body_str result_field_def general_hi
      score_of_def)

text \<open>For every text the \<^verbatim>\<open>issues\<close> are those of the three merged checks only.\<close>

lemma issues_of_validate_document:
  "result_field (validate_document today content filename document_type (PStr t)) ''issues'' =
     Some (PList (map PStr
       (structure_validation_issues today t document_type (rules_for document_type)
        @ authenticity_validation_issues t
        @ data_validation_issues t document_type (rules_for document_type))))"
  by (simp add: validate_document_def validate_document_body_str result_field_def
      merged_issues_def)




text \<open>
  Claim C5. For every input (bytes, file name, document type, extracted text of any type)
  \<^verbatim>\<open>validate_document\<close> returns a result whose \<^verbatim>\<open>validation_score\<close> lies in [0,1] and
  whose \<^verbatim>\<open>is_valid\<close> is \<^verbatim>\<open>validation_score >= 0.6\<close>, on the normal and on the error path.
\<close>

theorem validation_score_in_unit_interval_and_is_valid:
  "\<exists>r s. validate_document today content filename document_type extracted_text = Inr r
         \<and> map_of r ''validation_score'' = Some (PFloat s) \<and> 0 \<le> s \<and> s \<le> 1
         \<and> map_of r ''is_valid'' = Some (PBool (s \<ge> 6 / 10))"
proof (cases "\<exists>t. extracted_text = PStr t")
  case True
  then obtain t where t: "extracted_text = PStr t" by blast
  show ?thesis
    unfolding t validate_document_def validate_document_body_str
    using score_of_bounds by simp
next
  case False
  then obtain e where e:
    "validate_document_body today content filename document_type extracted_text = Inl e"
    using validate_document_body_not_str by blast
  show ?thesis using e by (simp add: validate_document_def)
qed

text \<open>
  Claim C10. On the non-error path of \<^verbatim>\<open>validate_document\<close> the returned \<^verbatim>\<open>confidence\<close>
  is \<^verbatim>\<open>(1.0 + authenticity_score) / 2\<close> for the \<^verbatim>\<open>authenticity_score\<close> that the
  authenticity check produced, and so lies in [0.5, 1.0] whatever the number of issues.
\<close>

theorem confidence_is_mean_of_one_and_authenticity:
  assumes "validate_document_body today content filename document_type extracted_text = Inr r"
  shows "\<exists>t a. extracted_text = PStr t
           \<and> map_of (validate_content_authenticity t document_type) ''authenticity_score''
               = Some (PFloat a)
           \<and> map_of r ''confidence'' = Some (PFloat ((1 + a) / 2))
           \<and> 1 / 2 \<le> (1 + a) / 2 \<and> (1 + a) / 2 \<le> 1"
proof (cases "\<exists>t. extracted_text = PStr t")
  case True
  then obtain t where t: "extracted_text = PStr t" by blast
  have "validate_document_body today content filename document_type (PStr t) = Inr r"
    using assms t by simp
  then show ?thesis
    using t authenticity_score_of_bounds [of t]
    by (auto simp add: validate_document_body_str validate_content_authenticity_def)
next
  case False
  then obtain e where e:
    "validate_document_body today content filename document_type extracted_text = Inl e"
    using validate_document_body_not_str by blast
  with assms show ?thesis by simp
qed

theorem confidence_is_mean_of_one_and_authenticity_witness:
  "\<exists>r. validate_document_body 739000 [] ''note.txt'' ''general'' (PStr ''xxxx'') = Inr r
        \<and> map_of (validate_content_authenticity ''xxxx'' ''general'') ''authenticity_score''
            = Some (PFloat (4 / 5))
        \<and> map_of r ''confidence'' = Some (PFloat (9 / 10))"
proof -
  obtain r where r:
    "validate_document_body 739000 [] ''note.txt'' ''general'' (PStr ''xxxx'') = Inr r"
    by (simp add: validate_document_body_str)
  from confidence_is_mean_of_one_and_authenticity [OF r]
  have "map_of r ''confidence'' = Some (PFloat ((1 + authenticity_score_of ''xxxx'') / 2))"
    by (auto simp add: validate_content_authenticity_def)
  then show ?thesis
    using r by (simp add: general_xxxx validate_content_authenticity_def)
qed

subsection \<open>Text Fraud Signal Engine\<close>

text \<open>The combined feature dictionary has all seven weighted features, and on a string the
  \<^verbatim>\<open>try\<close> block of \<^verbatim>\<open>analyze_text\<close> returns the report below.\<close>

lemmas feature_defs = combined_features_def extract_text_features_def analyze_amounts_def
  check_suspicious_patterns_def analyze_consistency_def

lemma combined_features_lookup:
  "map_of (combined_features t c a) ''fraud_keyword_ratio'' = Some (PFloat (fraud_keyword_ratio t))"
  "map_of (combined_features t c a) ''amount_anomaly_score'' = Some (PFloat (amount_anomaly_score c a))"
  "map_of (combined_features t c a) ''suspicious_pattern_count''
     = Some (PInt (int (length (suspicious_indicators_of t))))"
  "map_of (combined_features t c a) ''consistency_score'' = Some (PFloat (consistency_score_of t c))"
  "map_of (combined_features t c a) ''amount_consistency'' = Some (PFloat (amount_consistency_of t a))"
  "\<exists>v. map_of (combined_features t c a) ''round_amount_ratio'' = Some v
        \<and> num_of v = Inr (round_amount_ratio_of t)"
  "map_of (combined_features t c a) ''missing_info_count'' = Some (PInt (int (missing_info_count t)))"
  by (cases "extracted_amounts t = []";
      simp add: feature_defs fraud_keyword_ratio_def consistency_score_of_def
        amount_consistency_of_def round_amount_ratio_of_def Let_def)+

lemma combined_features_lookup_report:
  "map_of (combined_features t c a) ''text_length'' = Some (PInt (int (length t)))"
  "map_of (combined_features t c a) ''amount_count'' = Some (PInt (int (length (extracted_amounts t))))"
  "map_of (combined_features t c a) ''fraud_keyword_count'' = Some (PInt (int (fraud_keyword_count t)))"
  "map_of (combined_features t c a) ''detected_fraud_keywords''
     = Some (PList (map PStr (detected_fraud_keywords t)))"
  "map_of (combined_features t c a) ''suspicious_indicators''
     = Some (PList (map PStr (suspicious_indicators_of t)))"
  "map_of (combined_features t c a) ''consistency_issues''
     = Some (PList (map PStr (consistency_issues t c)))"
  by (cases "extracted_amounts t = []"; simp add: feature_defs Let_def)+

lemma str_items_map_PStr: "str_items (PList (map PStr xs)) = xs"
  by (induction xs) simp_all

lemma calculate_confidence_combined:
  "calculate_confidence (combined_features t c a) s = Inr (confidence_of t s)"
  by (simp add: calculate_confidence_def num_get_def dict_get_def combined_features_lookup_report
      and_then_def confidence_of_def)

lemma generate_fraud_report_combined:
  "generate_fraud_report (combined_features t c a) s c =
     Inr [(''fraud_score'', PFloat s),
          (''confidence'', PFloat (confidence_of t s)),
          (''risk_factors'', PList (map PStr (risk_factors_of t c a))),
          (''issues'', PList (map PStr (report_issues_of t c a))),
          (''recommendation'', PStr (get_recommendation s (confidence_of t s))),
          (''feature_analysis'', PDict (combined_features t c a)),
          (''claim_type'', PStr c)]"
  by (simp add: generate_fraud_report_def num_get_def dict_get_def combined_features_lookup
      combined_features_lookup_report calculate_confidence_combined str_items_map_PStr
      and_then_def risk_factors_of_def report_issues_of_def del: str_items.simps)


lemma calculate_fraud_score_combined:
  "calculate_fraud_score (combined_features t c a) = fraud_score_of t c a"
proof -
  obtain v where v: "map_of (combined_features t c a) ''round_amount_ratio'' = Some v"
      "num_of v = Inr (round_amount_ratio_of t)"
    using combined_features_lookup(6) by blast
  show ?thesis
    by (simp add: calculate_fraud_score_def calculate_fraud_score_body_def weights_def
        combined_features_lookup(1-5,7) v and_then_def normalized_value_def fraud_score_of_def)
qed

lemma analyze_text_str:
  "analyze_text (PStr t) c a =
     Inr [(''fraud_score'', PFloat (fraud_score_of t c a)),
          (''confidence'', PFloat (confidence_of t (fraud_score_of t c a))),
          (''risk_factors'', PList (map PStr (risk_factors_of t c a))),
          (''issues'', PList (map PStr (report_issues_of t c a))),
          (''recommendation'',
             PStr (get_recommendation (fraud_score_of t c a)
                     (confidence_of t (fraud_score_of t c a)))),
          (''feature_analysis'', PDict (combined_features t c a)),
          (''claim_type'', PStr c)]"
  by (simp add: analyze_text_def analyze_text_body_def and_then_def
      calculate_fraud_score_combined generate_fraud_report_combined)

lemma narrative_features:
  "fraud_keyword_count narrative = 4"
  "detected_fraud_keywords narrative = [''emergency'', ''asap'', ''cash only'', ''no receipt'']"
  "word_count_of narrative = 8"
  "length narrative = 52"
  "extracted_amounts narrative = []"
  "suspicious_indicators_of narrative = []"
  "missing_info_count narrative = 0"
  "consistency_issues narrative ''health'' = []"
  "amount_anomaly_score ''health'' 50000 = 1 / 5"
  by (simp_all add: narrative_def fraud_keywords_def amount_thresholds_def word_count_of_def
      detected_fraud_keywords_def fraud_keyword_count_def extracted_amounts_def clean_amount_def
      amount_anomaly_score_def suspicious_indicators_of_def missing_info_count_def
      check_health_consistency_def consistency_issues_def
      char_eval str_eval rx_eval pattern_defs)

lemma narrative_score: "fraud_score_of narrative ''health'' 50000 = 39 / 100"
  by (simp add: fraud_score_of_def fraud_keyword_ratio_def consistency_score_of_def
      amount_consistency_of_def round_amount_ratio_of_def narrative_features)

lemma narrative_report:
  "analyze_text (PStr narrative) ''health'' 50000 =
     Inr [(''fraud_score'', PFloat (39 / 100)),
          (''confidence'', PFloat (1 / 2)),
          (''risk_factors'', PList [PStr ''suspicious_language'', PStr ''amount_inconsistency'']),
          (''issues'',
             PList [PStr ''Suspicious keywords detected: emergency, asap, cash only, no receipt'',
                    PStr ''Inconsistency between claimed amount and extracted amounts'']),
          (''recommendation'', PStr ''standard_review''),
          (''feature_analysis'', PDict (combined_features narrative ''health'' 50000)),
          (''claim_type'', PStr ''health'')]"
  by (simp add: analyze_text_str narrative_score confidence_of_def risk_factors_of_def
      report_issues_of_def get_recommendation_def consistency_score_of_def
      amount_consistency_of_def narrative_features)

text \<open>
  Claim C2 (as amended). For the narrative
  \<^verbatim>\<open>Emergency surgery needed ASAP, cash only, no receipt\<close>, category \<^verbatim>\<open>health\<close> and
  claimed amount 50000, \<^verbatim>\<open>analyze_text\<close> returns \<^verbatim>\<open>fraud_score\<close> 0.39, which is not above
  0.5, and the \<^verbatim>\<open>risk_factors\<close> \<^verbatim>\<open>suspicious_language\<close> and \<^verbatim>\<open>amount_inconsistency\<close>.
  Four keywords in eight words saturate the keyword feature (weight 0.25); the amount
  lies at the upper end of the band (0.2 of weight 0.20) and no amount is found in the
  text (1.0 of weight 0.10); the other four features are 0.
\<close>

theorem narrative_scores_039:
  "result_field (analyze_text (PStr narrative) ''health'' 50000) ''fraud_score''
     = Some (PFloat (39 / 100))
   \<and> result_field (analyze_text (PStr narrative) ''health'' 50000) ''risk_factors''
       = Some (PList [PStr ''suspicious_language'', PStr ''amount_inconsistency''])
   \<and> result_field (analyze_text (PStr narrative) ''health'' 50000) ''recommendation''
       = Some (PStr ''standard_review'')"
  by (simp add: narrative_report result_field_def)

text \<open>The claim as stated, \<^verbatim>\<open>fraud_score > 0.5\<close>, fails on the code.\<close>

theorem narrative_score_not_above_half:
  "result_field (analyze_text (PStr narrative) ''health'' 50000) ''fraud_score''
     = Some (PFloat (39 / 100))
   \<and> \<not> (39 / 100 > (1 / 2 :: real))"
  by (simp add: narrative_report result_field_def)

text \<open>
  Claim C7. For every text (of any type), category and amount \<^verbatim>\<open>analyze_text\<close> returns
  a report and raises nothing; when its \<^verbatim>\<open>try\<close> block raises, the report has
  \<^verbatim>\<open>fraud_score\<close> 0.5, \<^verbatim>\<open>confidence\<close> 0.0 and the single issue
  \<^verbatim>\<open>Analysis error: \<close> followed by the message of the exception.
\<close>

theorem analyze_text_never_raises:
  "(\<exists>r. analyze_text x c a = Inr r)
   \<and> (analyze_text_body x c a = Inl e \<longrightarrow>
        analyze_text x c a =
          Inr [(''fraud_score'', PFloat (1 / 2)),
               (''issues'', PList [PStr (''Analysis error: '' @ error_str e)]),
               (''confidence'', PFloat 0)])"
  by (simp add: analyze_text_def split: sum.splits)

theorem analyze_text_never_raises_witness:
  "analyze_text_body PNone ''health'' 1000
     = Inl (TypeError (''object of type '' @ quote ''NoneType'' @ '' has no len()''))
   \<and> analyze_text PNone ''health'' 1000 =
       Inr [(''fraud_score'', PFloat (1 / 2)),
            (''issues'', PList [PStr (''Analysis error: object of type '' @ quote ''NoneType''
                                      @ '' has no len()'')]),
            (''confidence'', PFloat 0)]"
proof -
  have h: "analyze_text_body PNone ''health'' 1000
     = Inl (TypeError (''object of type '' @ quote ''NoneType'' @ '' has no len()''))"
    by (simp add: analyze_text_body_def and_then_def)
  from analyze_text_never_raises
         [of PNone "''health''" 1000
             "TypeError (''object of type '' @ quote ''NoneType'' @ '' has no len()'')"] h
  show ?thesis by simp
qed

lemma analyze_text_body_str_returns: "\<exists>r. analyze_text_body (PStr t) c a = Inr r"
  by (simp add: analyze_text_body_def and_then_def calculate_fraud_score_combined
      generate_fraud_report_combined)

lemma keyword_ratio_mono:
  fixes k1 k2 n1 n2 :: nat
  assumes k: "k1 \<le> k2" and n: "n2 \<le> n1 + 5 * (k2 - k1)"
  shows "min 1 (real k1 / real (max n1 1) * 5) \<le> min 1 (real k2 / real (max n2 1) * 5)"
proof (cases "max n2 1 \<le> 5 * k2")
  case True
  then have "real (max n2 1) \<le> real (5 * k2)" by (simp only: of_nat_le_iff)
  then have "1 \<le> real k2 / real (max n2 1) * 5"
    by (simp add: field_simps)
  then show ?thesis by simp
next
  case False
  then have big: "5 * k2 < max n2 1" by (simp only: not_le)
  define d where "d = k2 - k1"
  have k2: "k2 = k1 + d" using k by (simp add: d_def)
  have nd: "n2 \<le> n1 + 5 * d" using n by (simp add: d_def)
  have cross: "k1 * max n2 1 \<le> k2 * max n1 1"
  proof (cases "k1 = 0")
    case True
    then show ?thesis by simp
  next
    case False
    then have "5 < max n2 1" using big k by simp
    then have n2: "max n2 1 = n2" by simp
    have "5 * k1 + 5 * d < n2" using big k2 n2 by simp
    then have n1: "5 * k1 < n1" using nd by simp
    then have m1: "max n1 1 = n1" by simp
    have "k1 * n2 \<le> k1 * (n1 + 5 * d)" using nd by simp
    also have "\<dots> = k1 * n1 + (5 * k1) * d" by (simp add: algebra_simps)
    also have "\<dots> \<le> k1 * n1 + n1 * d"
      using n1 by (intro add_left_mono mult_right_mono) simp_all
    also have "\<dots> = k2 * n1" by (simp add: k2 algebra_simps)
    finally show ?thesis by (simp only: n2 m1)
  qed
  have "real (k1 * max n2 1) \<le> real (k2 * max n1 1)"
    using cross by (simp only: of_nat_le_iff)
  then have "real k1 / real (max n1 1) \<le> real k2 / real (max n2 1)"
    by (simp add: field_simps)
  then have "real k1 / real (max n1 1) * 5 \<le> real k2 / real (max n2 1) * 5"
    by (rule mult_right_mono) simp
  then show ?thesis by (intro min.mono order_refl)
qed

lemma weighted_sum_mono:
  fixes x y :: real
  assumes "x \<le> y"
  shows "min 1 (max 0 (25 / 100 * x + b + c + d + e + f + g))
           \<le> min 1 (max 0 (25 / 100 * y + b + c + d + e + f + g))"
  using assms by (intro min.mono max.mono order_refl add_right_mono mult_left_mono) simp_all

lemma map_PFloat_eq: "map PFloat xs = map PFloat ys \<Longrightarrow> xs = ys"
  by (simp add: inj_map_eq_map inj_on_def)

text \<open>
  Claim C8 (as amended). Let two texts be analysed with the same category and claimed
  amount, let the amount, pattern and consistency features of the two be equal, and let
  the second contain at least as many of the fraud keywords as the first and have at most
  five more words than the first for each fraud keyword it contains in addition. Then
  the \<^verbatim>\<open>fraud_score\<close> of the second is at least that of the first.

  The bound on the words is needed. \<^verbatim>\<open>_extract_text_features\<close> counts each keyword of the
  list once, however often it occurs, and divides the count by the number of words;
  \<^verbatim>\<open>_calculate_fraud_score\<close> scores five times this ratio, capped at 1. A keyword that is
  already counted, or one that is repeated, adds words without adding to the count, so the
  ratio and with it the score can fall: without the bound the claim fails, as the example
  after the theorem shows.
\<close>

theorem fraud_score_monotone_in_keywords:
  assumes amounts: "analyze_amounts t1 c a = analyze_amounts t2 c a"
      and patterns: "check_suspicious_patterns t1 = check_suspicious_patterns t2"
      and consistency: "analyze_consistency t1 c = analyze_consistency t2 c"
      and words: "word_count_of t2 \<le> word_count_of t1
                    + 5 * (fraud_keyword_count t2 - fraud_keyword_count t1)"
      and more: "fraud_keyword_count t1 \<le> fraud_keyword_count t2"
  shows "\<exists>s1 s2. result_field (analyze_text (PStr t1) c a) ''fraud_score'' = Some (PFloat s1)
           \<and> result_field (analyze_text (PStr t2) c a) ''fraud_score'' = Some (PFloat s2)
           \<and> s1 \<le> s2"
proof -
  have "extracted_amounts t1 = extracted_amounts t2"
    using amounts by (auto simp add: analyze_amounts_def Let_def dest: map_PFloat_eq
        split: if_splits)
  then have am: "amount_consistency_of t1 a = amount_consistency_of t2 a"
      "round_amount_ratio_of t1 = round_amount_ratio_of t2"
    by (simp_all add: amount_consistency_of_def round_amount_ratio_of_def)
  have pt: "length (suspicious_indicators_of t1) = length (suspicious_indicators_of t2)"
      "missing_info_count t1 = missing_info_count t2"
    using patterns by (simp_all add: check_suspicious_patterns_def)
  have cs: "consistency_score_of t1 c = consistency_score_of t2 c"
    using consistency by (simp add: analyze_consistency_def consistency_score_of_def)
  have kw: "min 1 (fraud_keyword_ratio t1 * 5) \<le> min 1 (fraud_keyword_ratio t2 * 5)"
    unfolding fraud_keyword_ratio_def using more words by (rule keyword_ratio_mono)
  have "fraud_score_of t1 c a \<le> fraud_score_of t2 c a"
    unfolding fraud_score_of_def am pt cs
    using kw by (rule weighted_sum_mono)
  then show ?thesis
    by (simp add: analyze_text_str result_field_def)
qed

lemma glasses_features:
  "fraud_keyword_count glasses_claim = 1"
  "fraud_keyword_count glasses_claim_asap = 2"
  "word_count_of glasses_claim = 9"
  "word_count_of glasses_claim_asap = 10"
  "extracted_amounts glasses_claim = []"
  "extracted_amounts glasses_claim_asap = []"
  "suspicious_indicators_of glasses_claim = []"
  "suspicious_indicators_of glasses_claim_asap = []"
  "missing_info_count glasses_claim = 0"
  "missing_info_count glasses_claim_asap = 0"
  "consistency_issues glasses_claim ''health'' = []"
  "consistency_issues glasses_claim_asap ''health'' = []"
  by (simp_all add: glasses_claim_def glasses_claim_asap_def fraud_keywords_def
      word_count_of_def detected_fraud_keywords_def fraud_keyword_count_def
      extracted_amounts_def clean_amount_def suspicious_indicators_of_def
      missing_info_count_def check_health_consistency_def consistency_issues_def
      char_eval str_eval rx_eval pattern_defs)

theorem fraud_score_monotone_in_keywords_witness:
  "fraud_keyword_count glasses_claim = 1 \<and> fraud_keyword_count glasses_claim_asap = 2
   \<and> word_count_of glasses_claim = 9 \<and> word_count_of glasses_claim_asap = 10
   \<and> analyze_amounts glasses_claim ''health'' 300 = analyze_amounts glasses_claim_asap ''health'' 300
   \<and> check_suspicious_patterns glasses_claim = check_suspicious_patterns glasses_claim_asap
   \<and> analyze_consistency glasses_claim ''health'' = analyze_consistency glasses_claim_asap ''health''
   \<and> (\<exists>s1 s2.
          result_field (analyze_text (PStr glasses_claim) ''health'' 300) ''fraud_score''
            = Some (PFloat s1)
        \<and> result_field (analyze_text (PStr glasses_claim_asap) ''health'' 300) ''fraud_score''
            = Some (PFloat s2)
        \<and> s1 \<le> s2)"
proof -
  have h1: "analyze_amounts glasses_claim ''health'' 300
              = analyze_amounts glasses_claim_asap ''health'' 300"
    by (simp add: analyze_amounts_def glasses_features)
  have h2: "check_suspicious_patterns glasses_claim = check_suspicious_patterns glasses_claim_asap"
    by (simp add: check_suspicious_patterns_def glasses_features)
  have h3: "analyze_consistency glasses_claim ''health''
              = analyze_consistency glasses_claim_asap ''health''"
    by (simp add: analyze_consistency_def glasses_features)
  have h4: "word_count_of glasses_claim_asap \<le> word_count_of glasses_claim
              + 5 * (fraud_keyword_count glasses_claim_asap - fraud_keyword_count glasses_claim)"
    by (simp add: glasses_features)
  have h5: "fraud_keyword_count glasses_claim \<le> fraud_keyword_count glasses_claim_asap"
    by (simp add: glasses_features)
  from fraud_score_monotone_in_keywords [OF h1 h2 h3 h4 h5] h1 h2 h3
  show ?thesis by (simp add: glasses_features)
qed

lemma glasses_ten_asap_features:
  "fraud_keyword_count glasses_claim_ten_asap = 2"
  "detected_fraud_keywords glasses_claim_ten_asap = [''urgent'', ''asap'']"
  "word_count_of glasses_claim_ten_asap = 19"
  "extracted_amounts glasses_claim_ten_asap = []"
  "suspicious_indicators_of glasses_claim_ten_asap = []"
  "missing_info_count glasses_claim_ten_asap = 0"
  "consistency_issues glasses_claim_ten_asap ''health'' = []"
  by (simp_all add: glasses_claim_def glasses_claim_ten_asap_def fraud_keywords_def
      word_count_of_def detected_fraud_keywords_def fraud_keyword_count_def
      extracted_amounts_def clean_amount_def suspicious_indicators_of_def
      missing_info_count_def check_health_consistency_def consistency_issues_def
      char_eval str_eval rx_eval pattern_defs)

lemma glasses_amount_anomaly: "amount_anomaly_score ''health'' 300 = 1 / 5"
  by (simp add: amount_anomaly_score_def amount_thresholds_def)

lemma glasses_claim_score: "fraud_score_of glasses_claim ''health'' 300 = 251 / 900"
  by (simp add: fraud_score_of_def fraud_keyword_ratio_def consistency_score_of_def
      amount_consistency_of_def round_amount_ratio_of_def glasses_features
      glasses_amount_anomaly)

lemma glasses_claim_ten_asap_score:
  "fraud_score_of glasses_claim_ten_asap ''health'' 300 = 129 / 475"
  by (simp add: fraud_score_of_def fraud_keyword_ratio_def consistency_score_of_def
      amount_consistency_of_def round_amount_ratio_of_def glasses_ten_asap_features
      glasses_amount_anomaly)

text \<open>
  The claim as stated fails on the code. The text
  \<^verbatim>\<open>please pay for my new glasses, it is urgent\<close> has one fraud keyword in nine words and
  scores 251/900 (category \<^verbatim>\<open>health\<close>, amount 300). Extended by ten occurrences of the
  additional keyword \<^verbatim>\<open>asap\<close> and nothing else, it has two fraud keywords in nineteen
  words, the same amount, pattern and consistency features, and the lower score 129/475:
  the keyword ratio fell from 1/9 to 2/19.
\<close>

theorem added_keyword_occurrences_lower_score:
  "glasses_claim_ten_asap
     = glasses_claim @ '' asap asap asap asap asap asap asap asap asap asap''
   \<and> fraud_keyword_count glasses_claim = 1 \<and> fraud_keyword_count glasses_claim_ten_asap = 2
   \<and> analyze_amounts glasses_claim ''health'' 300
       = analyze_amounts glasses_claim_ten_asap ''health'' 300
   \<and> check_suspicious_patterns glasses_claim = check_suspicious_patterns glasses_claim_ten_asap
   \<and> analyze_consistency glasses_claim ''health''
       = analyze_consistency glasses_claim_ten_asap ''health''
   \<and> result_field (analyze_text (PStr glasses_claim) ''health'' 300) ''fraud_score''
       = Some (PFloat (251 / 900))
   \<and> result_field (analyze_text (PStr glasses_claim_ten_asap) ''health'' 300) ''fraud_score''
       = Some (PFloat (129 / 475))
   \<and> \<not> (251 / 900 \<le> (129 / 475 :: real))"
proof -
  have h1: "analyze_amounts glasses_claim ''health'' 300
              = analyze_amounts glasses_claim_ten_asap ''health'' 300"
    by (simp add: analyze_amounts_def glasses_features glasses_ten_asap_features)
  have h2: "check_suspicious_patterns glasses_claim
              = check_suspicious_patterns glasses_claim_ten_asap"
    by (simp add: check_suspicious_patterns_def glasses_features glasses_ten_asap_features)
  have h3: "analyze_consistency glasses_claim ''health''
              = analyze_consistency glasses_claim_ten_asap ''health''"
    by (simp add: analyze_consistency_def glasses_features glasses_ten_asap_features)
  have s1: "result_field (analyze_text (PStr glasses_claim) ''health'' 300) ''fraud_score''
              = Some (PFloat (251 / 900))"
    by (simp add: analyze_text_str result_field_def glasses_claim_score)
  have s2: "result_field (analyze_text (PStr glasses_claim_ten_asap) ''health'' 300)
              ''fraud_score'' = Some (PFloat (129 / 475))"
    by (simp add: analyze_text_str result_field_def glasses_claim_ten_asap_score)
  have lt: "\<not> (251 / 900 \<le> (129 / 475 :: real))"
    by simp
  note d = glasses_claim_ten_asap_def
  note k1 = glasses_features(1)
  note k2 = glasses_ten_asap_features(1)
  from d k1 k2 h1 h2 h3 s1 s2 lt show ?thesis
    by (intro conjI)
qed

subsection \<open>Amounts without a decimal point\<close>

text \<open>Every match of the regular-expression matcher is a piece of the text it scans.\<close>

lemma rx_match_suffix:
  "st' \<in> set (rx_match ic r st) \<Longrightarrow> \<exists>u. fst (snd st) = u @ fst (snd st')"
proof (induction ic r st arbitrary: st' rule: rx_match.induct)
  case (1 ic a p s g)
  then show ?case by (auto split: list.splits if_splits)
next
  case (2 ic cs p s g)
  then show ?case by (auto split: list.splits if_splits)
next
  case (3 ic cs p s g)
  then show ?case by (auto split: list.splits if_splits)
next
  case (4 ic st)
  then show ?case by simp
next
  case (5 ic p s g)
  then show ?case by (auto split: if_splits)
next
  case (6 ic a b st)
  from 6(3) obtain mid where mid: "mid \<in> set (rx_match ic a st)" "st' \<in> set (rx_match ic b mid)"
    by auto
  from 6(1) [OF mid(1)] obtain u where u: "fst (snd st) = u @ fst (snd mid)" by blast
  from 6(2) [OF mid(1) mid(2)] obtain v where v: "fst (snd mid) = v @ fst (snd st')" by blast
  show ?case using u v by simp
next
  case (7 ic a b st)
  from 7(3) have "st' \<in> set (rx_match ic a st) \<or> st' \<in> set (rx_match ic b st)" by simp
  then show ?case using 7(1,2) by blast
next
  case (8 ic a p s g)
  from 8(3) have mem:
    "st' \<in> set (concat (map (\<lambda>(p', s', g'). if length s' < length s
                                               then rx_match ic (Star a) (p', s', g') else [])
                            (rx_match ic a (p, s, g))) @ [(p, s, g)])"
    by (subst (asm) rx_match.simps(8))
  show ?case
  proof (cases "st' = (p, s, g)")
    case True
    then show ?thesis by simp
  next
    case False
    with mem obtain p' s' g' where mid: "(p', s', g') \<in> set (rx_match ic a (p, s, g))"
        "length s' < length s" "st' \<in> set (rx_match ic (Star a) (p', s', g'))"
      by (auto simp del: rx_match.simps split: if_splits)
    from 8(1) [OF mid(1)] obtain u where u: "s = u @ s'" by auto
    from 8(2) [OF mid(1) refl refl mid(2) mid(3)] obtain v where v: "s' = v @ fst (snd st')"
      by (auto simp del: rx_match.simps)
    show ?thesis using u v by simp
  qed
next
  case (9 ic n a p s g)
  then show ?case by fastforce
next
  case (10 ic n p s g)
  then show ?case
    by (auto split: option.splits if_splits) (metis append_take_drop_id)
qed

lemma rx_findall_from_chars:
  "m \<in> set (rx_findall_from ic r p s) \<Longrightarrow> set m \<subseteq> set s"
proof (induction ic r p s arbitrary: m rule: rx_findall_from.induct)
  case (1 ic r p s)
  note mem = 1(4) [unfolded rx_findall_from.simps [of ic r p s]]
  show ?case
  proof (cases "rx_match ic r (p, s, [])")
    case Nil
    show ?thesis
    proof (cases s)
      case empty: Nil
      with mem Nil show ?thesis by simp
    next
      case (Cons c t)
      with mem Nil have "m \<in> set (rx_findall_from ic r (Some c) t)"
        by simp
      from 1(1) [OF Nil Cons this] show ?thesis
        using Cons by auto
    qed
  next
    case (Cons st ms)
    obtain p' s' g where st: "st = (p', s', g)" by (cases st) auto
    have "(p', s', g) \<in> set (rx_match ic r (p, s, []))" using Cons st by simp
    from rx_match_suffix [OF this] obtain u where u: "s = u @ s'" by auto
    have tk: "set (take (length s - length s') s) \<subseteq> set s" by (rule set_take_subset)
    show ?thesis
    proof (cases "m = take (length s - length s') s")
      case True
      then show ?thesis using tk by simp
    next
      case False
      show ?thesis
      proof (cases "length s' < length s")
        case True
        with mem Cons st False have "m \<in> set (rx_findall_from ic r p' s')" by simp
        from 1(2) [OF Cons st [symmetric] refl True this] have "set m \<subseteq> set s'" .
        then show ?thesis using u by auto
      next
        case nl: False
        show ?thesis
        proof (cases s)
          case empty: Nil
          with mem Cons st False nl show ?thesis by simp
        next
          case tl: (Cons c t)
          with mem Cons st False nl
          have "m \<in> set (rx_findall_from ic r (Some c) t)" by simp
          from 1(3) [OF Cons st [symmetric] refl nl tl this]
          show ?thesis using tl by auto
        qed
      qed
    qed
  qed
qed

lemma amounts_of_matches_dot:
  "a \<in> set (amounts_of_matches ms) \<Longrightarrow>
   \<exists>m\<in>set ms. CHR ''.'' \<in> set (clean_amount m) \<and> float_of (clean_amount m) = Inr a"
  by (induction ms) (auto simp: Let_def split: if_splits sum.splits)

lemma amounts_of_matches_no_dot:
  "\<forall>m\<in>set ms. CHR ''.'' \<notin> set m \<Longrightarrow> amounts_of_matches ms = []"
  by (induction ms) (auto simp: Let_def clean_amount_def)

lemma no_dot_no_amounts:
  assumes "CHR ''.'' \<notin> set t"
  shows "amounts_of_matches (rx_findall False currency_pattern t) = []"
proof (rule amounts_of_matches_no_dot, rule ballI)
  fix m assume "m \<in> set (rx_findall False currency_pattern t)"
  then have "set m \<subseteq> set t"
    unfolding rx_findall_def by (rule rx_findall_from_chars)
  with assms show "CHR ''.'' \<notin> set m" by blast
qed

lemma five_hundred:
  "rx_findall False currency_pattern ''$500'' = [''$500'']"
  "extract_amounts ''$500'' = []"
  "extracted_amounts ''$500'' = []"
  by (simp_all add: extract_amounts_def extracted_amounts_def clean_amount_def currency_pattern_def
      rx_eval char_eval str_eval)

lemma with_cents:
  "rx_findall False currency_pattern ''$1,234.56 and $500'' = [''$1,234.56'', ''$500'']"
  "extract_amounts ''$1,234.56 and $500'' = [30864 / 25]"
  "extracted_amounts ''$1,234.56 and $500'' = [30864 / 25]"
  by (simp_all add: extract_amounts_def extracted_amounts_def clean_amount_def currency_pattern_def
      rx_eval char_eval str_eval)

text \<open>
  Claim C9. Both amount extractors (\<^verbatim>\<open>_analyze_amounts\<close> of the fraud engine and
  \<^verbatim>\<open>_extract_amounts\<close> of the validator) keep a matched currency substring only if its
  cleaned text contains a decimal point. So a text without any decimal point yields no
  amount, \<^verbatim>\<open>$500\<close> is not extracted, and it contributes nothing to
  \<^verbatim>\<open>amount_consistency\<close> (which stays at the no-amounts value 1.0),
  \<^verbatim>\<open>round_amount_ratio\<close> or the validator's amounts.
\<close>

theorem amounts_need_decimal_point:
  "(a \<in> set (extract_amounts t) \<or> a \<in> set (extracted_amounts t) \<longrightarrow>
      (\<exists>m\<in>set (rx_findall False currency_pattern t).
          CHR ''.'' \<in> set (clean_amount m) \<and> float_of (clean_amount m) = Inr a))
   \<and> (CHR ''.'' \<notin> set t \<longrightarrow> extract_amounts t = [] \<and> extracted_amounts t = [])
   \<and> extract_amounts ''$500'' = [] \<and> extracted_amounts ''$500'' = []
   \<and> analyze_amounts ''$500'' ''health'' 500 =
       [(''extracted_amounts'', PList []), (''amount_count'', PInt 0),
        (''max_extracted_amount'', PInt 0), (''amount_consistency'', PFloat 1),
        (''round_amount_ratio'', PInt 0), (''amount_anomaly_score'', PFloat (1 / 5))]
   \<and> map_of (extracted_data_of ''$500'' ''general'') ''amounts'' = Some (PList [])"
proof -
  have 1: "a \<in> set (extract_amounts t) \<or> a \<in> set (extracted_amounts t) \<longrightarrow>
      (\<exists>m\<in>set (rx_findall False currency_pattern t).
          CHR ''.'' \<in> set (clean_amount m) \<and> float_of (clean_amount m) = Inr a)"
    using amounts_of_matches_dot [of a "rx_findall False currency_pattern t"]
    by (simp add: extract_amounts_def extracted_amounts_def)
  have 2: "CHR ''.'' \<notin> set t \<longrightarrow> extract_amounts t = [] \<and> extracted_amounts t = []"
    using no_dot_no_amounts [of t] by (simp add: extract_amounts_def extracted_amounts_def)
  have 3: "analyze_amounts ''$500'' ''health'' 500 =
       [(''extracted_amounts'', PList []), (''amount_count'', PInt 0),
        (''max_extracted_amount'', PInt 0), (''amount_consistency'', PFloat 1),
        (''round_amount_ratio'', PInt 0), (''amount_anomaly_score'', PFloat (1 / 5))]"
    by (simp add: analyze_amounts_def five_hundred amount_anomaly_score_def amount_thresholds_def)
  have 4: "map_of (extracted_data_of ''$500'' ''general'') ''amounts'' = Some (PList [])"
    by (simp add: extracted_data_of_def five_hundred)
  show ?thesis using 1 2 3 4 five_hundred(2,3) by blast
qed

theorem amounts_need_decimal_point_witness:
  "30864 / 25 \<in> set (extract_amounts ''$1,234.56 and $500'')
   \<and> (\<exists>m\<in>set (rx_findall False currency_pattern ''$1,234.56 and $500'').
          CHR ''.'' \<in> set (clean_amount m) \<and> float_of (clean_amount m) = Inr (30864 / 25))
   \<and> CHR ''.'' \<notin> set ''$500'' \<and> extract_amounts ''$500'' = []"
proof -
  have h1: "30864 / 25 \<in> set (extract_amounts ''$1,234.56 and $500'')"
    by (simp add: with_cents)
  have h2: "CHR ''.'' \<notin> set ''$500''" by simp
  from amounts_need_decimal_point [of "30864 / 25" "''$1,234.56 and $500''"]
       amounts_need_decimal_point [of 0 "''$500''"] h1 h2
  show ?thesis by blast
qed

subsection \<open>Image Forensic Analyzer\<close>

lemma and_then_Inl: "and_then (Inl e) f = Inl e"
  by (simp add: and_then_def)

lemma and_then_Inr: "and_then (Inr x) f = f x"
  by (simp add: and_then_def)

lemma assess_quality_no_score:
  "assess_quality img = Inr q \<Longrightarrow> dict_index q ''score'' = Inl (KeyError ''score'')"
  by (auto simp: assess_quality_def assess_quality_body_def and_then_def dict_index_def Let_def
      split: sum.splits prod.splits)

lemma analyze_authenticity_returns: "\<exists>a. analyze_authenticity img = Inr a"
  by (simp add: analyze_authenticity_def split: sum.splits)

lemma assess_quality_returns: "\<exists>q. assess_quality img = Inr q"
  by (simp add: assess_quality_def split: sum.splits)

lemma analyze_image_body_raises:
  "\<exists>e. analyze_image_body img filename analysis_type start_time end_time = Inl e"
proof (cases "decode_error img")
  case (Some e)
  then show ?thesis by (simp add: analyze_image_body_def)
next
  case None
  obtain a where a: "analyze_authenticity img = Inr a"
    using analyze_authenticity_returns by blast
  obtain q where q: "assess_quality img = Inr q"
    using assess_quality_returns by blast
  have "dict_index q ''score'' = Inl (KeyError ''score'')"
    using q by (rule assess_quality_no_score)
  then show ?thesis
    using None a q
    by (cases "dict_index a ''score''")
       (simp_all add: analyze_image_body_def and_then_Inl and_then_Inr Let_def)
qed

theorem analyze_image_authenticity_score_half:
  "\<exists>r. analyze_image img filename analysis_type start_time end_time = Inr r
        \<and> map_of r ''authenticity_score'' = Some (PFloat (1 / 2))"
proof -
  obtain e where "analyze_image_body img filename analysis_type start_time end_time = Inl e"
    using analyze_image_body_raises by blast
  then show ?thesis by (simp add: analyze_image_def)
qed

lemma zero_blocks: "sum_list (concat (map (\<lambda>i. map (\<lambda>j. (0::real)) (xs i)) ys)) = 0"
  by (induction ys) simp_all

lemma uniform_compression: "check_compression_artifacts uniform_image = Inr 0"
  by (simp add: check_compression_artifacts_def compression_artifacts_body_def and_then_def
      uniform_image_def zero_blocks)

lemma uniform_noise: "check_noise_patterns uniform_image = Inr 0"
  by (simp add: check_noise_patterns_def noise_patterns_body_def and_then_def uniform_image_def)

lemma uniform_color: "check_color_consistency uniform_image = Inr 0"
  by (simp add: check_color_consistency_def color_consistency_body_def and_then_def
      uniform_image_def list_ex_iff)

lemma uniform_edge: "check_edge_discontinuities uniform_image = Inr 0"
  by (simp add: check_edge_discontinuities_def edge_discontinuities_body_def and_then_def
      uniform_image_def)

lemma uniform_exif:
  "analyze_exif_data uniform_image =
     Inr [(''suspicious'', PBool False), (''issues'', PList []), (''has_exif'', PBool True),
          (''exif_tags_count'', PInt 3)]"
  by (simp add: analyze_exif_data_def analyze_exif_data_body_def and_then_def uniform_image_def
      exif_dates_def)

lemma uniform_quality:
  "assess_quality uniform_image =
     Inr [(''resolution'', PDict [(''width'', PInt 64), (''height'', PInt 64),
              (''total_pixels'', PInt 4096), (''quality'', PStr ''low'')]),
          (''sharpness'', PDict [(''score'', PFloat 0), (''quality'', PStr ''blurred'')]),
          (''exposure'', PDict [(''brightness'', PFloat 0), (''contrast'', PFloat 0),
              (''quality'', PStr ''poor'')]),
          (''overall_score'', PFloat ((4096 / 1000000 + 1 / 2) / 3))]"
  by (simp add: assess_quality_def assess_quality_body_def and_then_def uniform_image_def)

lemma uniform_authenticity:
  "analyze_authenticity uniform_image =
     Inr [(''score'', PFloat 1), (''indicators'', PList []),
          (''compression_score'', PFloat 0), (''noise_score'', PFloat 0),
          (''color_score'', PFloat 0), (''edge_score'', PFloat 0),
          (''exif_analysis'', PDict [(''suspicious'', PBool False), (''issues'', PList []),
              (''has_exif'', PBool True), (''exif_tags_count'', PInt 3)])]"
  by (simp add: analyze_authenticity_def analyze_authenticity_body_def uniform_compression
      uniform_noise uniform_color uniform_edge uniform_exif and_then_def dict_index_def
      tampering_thresholds_def)

text \<open>
  Claim C1. For every image whose bytes decode, \<^verbatim>\<open>analyze_image\<close> returns an
  \<^verbatim>\<open>authenticity_score\<close> in [0,1], and for a uniform, artifact-free image with consistent
  metadata the returned \<^verbatim>\<open>authenticity_score\<close> is at least 0.9.

  The code does not do the second part. \<^verbatim>\<open>_assess_quality\<close> stores its result under
  \<^verbatim>\<open>overall_score\<close>, \<^verbatim>\<open>analyze_image\<close> reads \<^verbatim>\<open>quality_analysis["score"]\<close>, so building
  the result raises \<^verbatim>\<open>KeyError\<close> for every image and the handler returns the neutral
  0.5 (lemma \<open>analyze_image_authenticity_score_half\<close> above). The theorem runs the
  code on \<open>uniform_image\<close>: the authenticity analysis itself scores the image 1.0, and
  \<^verbatim>\<open>analyze_image\<close> returns 0.5 with the error \<^verbatim>\<open>'score'\<close>.
\<close>

theorem analyze_image_uniform_image:
  "and_then (analyze_authenticity uniform_image) (\<lambda>a. dict_index a ''score'') = Inr (PFloat 1)
   \<and> analyze_image uniform_image ''photo.jpg'' ''general'' 0 1 =
       Inr [(''filename'', PStr ''photo.jpg''),
            (''error'', PStr (quote ''score'')),
            (''authenticity_score'', PFloat (1 / 2)),
            (''quality_score'', PFloat (1 / 2)),
            (''processing_time'', PFloat 1)]"
proof -
  have d: "decode_error uniform_image = None"
    by (simp add: uniform_image_def)
  show ?thesis
    by (simp add: analyze_image_def analyze_image_body_def d uniform_authenticity
        uniform_quality and_then_def dict_index_def)
qed

text \<open>
  Claim C6 (as amended). None of the four authenticity sub-detectors
  (compression artifacts, noise patterns, colour consistency, edge discontinuities) lets
  an exception reach its caller, and a sub-detector whose \<^verbatim>\<open>try\<close> block raises returns
  0.0, not the neutral 0.5 of the claim.
\<close>

theorem sub_detector_exception_returns_zero:
  "(\<exists>s. check_compression_artifacts img = Inr s)
   \<and> (\<exists>s. check_noise_patterns img = Inr s)
   \<and> (\<exists>s. check_color_consistency img = Inr s)
   \<and> (\<exists>s. check_edge_discontinuities img = Inr s)
   \<and> (compression_artifacts_body img = Inl e1 \<longrightarrow> check_compression_artifacts img = Inr 0)
   \<and> (noise_patterns_body img = Inl e2 \<longrightarrow> check_noise_patterns img = Inr 0)
   \<and> (color_consistency_body img = Inl e3 \<longrightarrow> check_color_consistency img = Inr 0)
   \<and> (edge_discontinuities_body img = Inl e4 \<longrightarrow> check_edge_discontinuities img = Inr 0)"
  by (simp add: check_compression_artifacts_def check_noise_patterns_def
      check_color_consistency_def check_edge_discontinuities_def split: sum.splits)

theorem sub_detector_exception_returns_zero_witness:
  "compression_artifacts_body unreadable_image = Inl (LibraryError ''cv2.error'')
   \<and> noise_patterns_body unreadable_image = Inl (LibraryError ''cv2.error'')
   \<and> color_consistency_body unreadable_image = Inl (LibraryError ''cv2.error'')
   \<and> edge_discontinuities_body unreadable_image = Inl (LibraryError ''cv2.error'')
   \<and> check_compression_artifacts unreadable_image = Inr 0
   \<and> check_noise_patterns unreadable_image = Inr 0
   \<and> check_color_consistency unreadable_image = Inr 0
   \<and> check_edge_discontinuities unreadable_image = Inr 0"
proof -
  have b: "compression_artifacts_body unreadable_image = Inl (LibraryError ''cv2.error'')"
    "noise_patterns_body unreadable_image = Inl (LibraryError ''cv2.error'')"
    "color_consistency_body unreadable_image = Inl (LibraryError ''cv2.error'')"
    "edge_discontinuities_body unreadable_image = Inl (LibraryError ''cv2.error'')"
    by (simp_all add: compression_artifacts_body_def noise_patterns_body_def
        color_consistency_body_def edge_discontinuities_body_def and_then_def
        unreadable_image_def)
  from sub_detector_exception_returns_zero
         [of unreadable_image "LibraryError ''cv2.error''" "LibraryError ''cv2.error''"
             "LibraryError ''cv2.error''" "LibraryError ''cv2.error''"] b
  show ?thesis by blast
qed

text \<open>
  The claim as stated fails on \<open>tiny_image\<close>: at 4x4 pixels
  \<^verbatim>\<open>block_variance /= ((h//8) * (w//8))\<close> divides the integer 0 by 0, the handler of
  \<^verbatim>\<open>_check_compression_artifacts\<close> catches the \<^verbatim>\<open>ZeroDivisionError\<close> and returns 0.0.
\<close>

theorem tiny_image_compression_not_neutral:
  "compression_artifacts_body tiny_image = Inl (ZeroDivisionError ''division by zero'')
   \<and> check_compression_artifacts tiny_image = Inr 0
   \<and> check_compression_artifacts tiny_image \<noteq> Inr (1 / 2)"
  by (simp add: check_compression_artifacts_def compression_artifacts_body_def and_then_def
      tiny_image_def uniform_image_def)

end
